theory Spec2Isabelle
  imports Complex_Main "HOL-Library.Multiset"
begin

text \<open>
  A shallow embedding of the optimizers of \<open>opytimizer\<close> given in \<open>sa.py\<close> (Simulated
  Annealing) and \<open>cem.py\<close> (Cross-Entropy Method): the validated parameter setters, the
  update of each strategy, and the pipeline \<open>run\<close>.  Python floats are modelled as real
  numbers, so arithmetic is exact; agents and position arrays live in an explicit store, since
  the code copies and mutates them through references; random draws are read from given
  sequences; an exception is a value \<open>Inl\<close> of a sum type.  Logging and the progress bar
  change no state of the optimization and are left out.
\<close>

section \<open>Python values and exceptions\<close>

text \<open>
  The values a caller can hand to a parameter setter.  Python's \<open>bool\<close> is a subclass of
  \<open>int\<close>, so \<open>isinstance(True, int)\<close> holds; floats are modelled as reals.
\<close>

datatype pyval = PNone | PBool bool | PInt int | PFloat real | PStr string

text \<open>
  The exceptions raised by the code under study: \<open>e.TypeError\<close> and \<open>e.ValueError\<close> of
  \<open>opytimizer.utils.exception\<close>, and the built-in \<open>ZeroDivisionError\<close> and \<open>IndexError\<close>.
\<close>

datatype error = TypeError string | ValueError string | ZeroDivisionError | IndexError

text \<open>\<open>isinstance(v, (float, int))\<close>\<close>

fun is_float_or_int :: "pyval \<Rightarrow> bool" where
  "is_float_or_int (PBool _) = True"
| "is_float_or_int (PInt _) = True"
| "is_float_or_int (PFloat _) = True"
| "is_float_or_int _ = False"

text \<open>\<open>isinstance(v, int)\<close>\<close>

fun is_int :: "pyval \<Rightarrow> bool" where
  "is_int (PBool _) = True"
| "is_int (PInt _) = True"
| "is_int _ = False"

text \<open>The number a numeric value stands for in a comparison or in arithmetic.\<close>

fun num :: "pyval \<Rightarrow> real" where
  "num (PBool b) = (if b then 1 else 0)"
| "num (PInt i) = real_of_int i"
| "num (PFloat x) = x"
| "num _ = 0"

text \<open>The integer an instance of \<open>int\<close> stands for.\<close>

fun int_of :: "pyval \<Rightarrow> int" where
  "int_of (PBool b) = (if b then 1 else 0)"
| "int_of (PInt i) = i"
| "int_of _ = 0"

text \<open>
  True division \<open>a / b\<close> of Python floats, which raises on a zero divisor.  (On numpy
  \<open>float64\<close> scalars the same division answers an infinity or a NaN with a warning; fitness
  values are taken to be Python floats here.)
\<close>

definition py_div :: "real \<Rightarrow> real \<Rightarrow> error + real" where
  "py_div a b = (if b = 0 then Inl ZeroDivisionError else Inr (a / b))"



section \<open>Objects, arrays and the random source\<close>

text \<open>
  Agents are objects and their positions are numpy arrays: both are reached through
  references, mutated in place and duplicated by \<open>copy.deepcopy\<close>.  The store keeps the arrays
  and the agent objects under addresses; a fresh address is the next unused one.

  Modelled from the spec: the \<open>Agent\<close> class (\<open>opytimizer.core.agent\<close>) is not among the
  sources.  Section 3 of the specification gives its fields: a position indexed by
  (decision variable, dimension), a scalar fitness, the shape metadata and the bounds per
  variable.
\<close>

type_synonym addr = nat
type_synonym ndarray = "real list list"

record agent =
  position :: addr
  fit :: real
  lb :: "real list"
  ub :: "real list"
  n_variables :: nat
  n_dimensions :: nat

text \<open>
  Modelled from the spec: the random source (\<open>opytimizer.math.random\<close>) is not among the
  sources.  Section 6 asks for Gaussian(mean, std, size) and uniform(low, high) generators with
  independent draws.  The draws are two given sequences, of standard normal values and of
  uniform values of [0,1), with the number of values consumed so far; a Gaussian value of mean
  \<open>m\<close> and deviation \<open>s\<close> is \<open>m + s * z\<close> for the next standard normal \<open>z\<close>.
\<close>

record world =
  arrays :: "addr \<Rightarrow> ndarray"
  objects :: "addr \<Rightarrow> agent"
  next_array :: addr
  next_object :: addr
  normal_draws :: "nat \<Rightarrow> real"
  uniform_draws :: "nat \<Rightarrow> real"
  normal_count :: nat
  uniform_count :: nat

text \<open>\<open>r.generate_gaussian_random_number(mean, variance, size)\<close> with a one-dimensional size.\<close>

definition generate_gaussian_random_number :: "real \<Rightarrow> real \<Rightarrow> nat \<Rightarrow> world \<Rightarrow> real list \<times> world" where
  "generate_gaussian_random_number m s n w =
     (map (\<lambda>i. m + s * normal_draws w (normal_count w + i)) [0..<n],
      w\<lparr>normal_count := normal_count w + n\<rparr>)"

text \<open>The same with a two-dimensional size \<open>(rows, cols)\<close>, filled row by row.\<close>

definition generate_gaussian_random_matrix :: "real \<Rightarrow> real \<Rightarrow> nat \<times> nat \<Rightarrow> world \<Rightarrow> ndarray \<times> world" where
  "generate_gaussian_random_matrix m s shape w =
     (map (\<lambda>i. map (\<lambda>j. m + s * normal_draws w (normal_count w + i * snd shape + j)) [0..<snd shape])
        [0..<fst shape],
      w\<lparr>normal_count := normal_count w + fst shape * snd shape\<rparr>)"

text \<open>\<open>r.generate_uniform_random_number(low, high)\<close>; the defaults are 0 and 1.\<close>

definition generate_uniform_random_number :: "real \<Rightarrow> real \<Rightarrow> world \<Rightarrow> real \<times> world" where
  "generate_uniform_random_number low high w =
     (low + (high - low) * uniform_draws w (uniform_count w),
      w\<lparr>uniform_count := Suc (uniform_count w)\<rparr>)"

text \<open>\<open>copy.deepcopy\<close> of an array: a new array with the same contents.\<close>

definition deepcopy_array :: "addr \<Rightarrow> world \<Rightarrow> addr \<times> world" where
  "deepcopy_array p w =
     (next_array w,
      w\<lparr>arrays := (arrays w)(next_array w := arrays w p), next_array := Suc (next_array w)\<rparr>)"

text \<open>\<open>copy.deepcopy\<close> of an agent: a new object whose position is a new array.\<close>

definition deepcopy_agent :: "addr \<Rightarrow> world \<Rightarrow> addr \<times> world" where
  "deepcopy_agent p w =
     (let (q, w1) = deepcopy_array (position (objects w p)) w
      in (next_object w1,
          w1\<lparr>objects := (objects w1)(next_object w1 := (objects w1 p)\<lparr>position := q\<rparr>),
             next_object := Suc (next_object w1)\<rparr>))"

text \<open>The contents of an agent's position array.\<close>

definition position_of :: "world \<Rightarrow> addr \<Rightarrow> ndarray" where
  "position_of w p = arrays w (position (objects w p))"

text \<open>\<open>a.position += noise\<close>: numpy adds in place, element by element.\<close>

definition position_iadd :: "addr \<Rightarrow> ndarray \<Rightarrow> world \<Rightarrow> world" where
  "position_iadd p noise w =
     w\<lparr>arrays := (arrays w)(position (objects w p) := map2 (map2 (+)) (position_of w p) noise)\<rparr>"

text \<open>
  Modelled from the spec: \<open>Agent.clip_by_bound\<close> is not among the sources.  It clamps every
  element of the position into the interval of its variable, \<open>np.clip(x, lb, ub)\<close>, in place.
\<close>

fun clip_rows :: "ndarray \<Rightarrow> real list \<Rightarrow> real list \<Rightarrow> ndarray" where
  "clip_rows (row # rows) (l # ls) (u # us) = map (\<lambda>x. min (max x l) u) row # clip_rows rows ls us"
| "clip_rows rows _ _ = rows"

definition clip_by_bound :: "addr \<Rightarrow> world \<Rightarrow> world" where
  "clip_by_bound p w =
     w\<lparr>arrays := (arrays w)(position (objects w p) :=
          clip_rows (position_of w p) (lb (objects w p)) (ub (objects w p)))\<rparr>"

text \<open>\<open>agent.fit = v\<close> and \<open>agent.position = q\<close>.\<close>

definition set_fit :: "addr \<Rightarrow> real \<Rightarrow> world \<Rightarrow> world" where
  "set_fit p v w = w\<lparr>objects := (objects w)(p := (objects w p)\<lparr>fit := v\<rparr>)\<rparr>"

definition set_position :: "addr \<Rightarrow> addr \<Rightarrow> world \<Rightarrow> world" where
  "set_position p q w = w\<lparr>objects := (objects w)(p := (objects w p)\<lparr>position := q\<rparr>)\<rparr>"


section \<open>Simulated Annealing: parameters\<close>

text \<open>
  The optimizer object of \<open>sa.py\<close>: the private attributes \<open>_T\<close> and \<open>_beta\<close>.  A setter
  stores only an instance of \<open>float\<close> or \<open>int\<close>, so the attributes hold the number stored.
\<close>

record sa =
  sa_T :: real
  sa_beta :: real

text \<open>\<open>@T.setter\<close> (sa.py, lines 64-71).\<close>

definition SA_T_setter :: "pyval \<Rightarrow> sa \<Rightarrow> error + sa" where
  "SA_T_setter T self =
     (if \<not> is_float_or_int T then Inl (TypeError ''`T` should be a float or integer'')
      else if num T < 0 then Inl (ValueError ''`T` should be >= 0'')
      else Inr (self\<lparr>sa_T := num T\<rparr>))"

text \<open>\<open>@beta.setter\<close> (sa.py, lines 81-88).\<close>

definition SA_beta_setter :: "pyval \<Rightarrow> sa \<Rightarrow> error + sa" where
  "SA_beta_setter beta self =
     (if \<not> is_float_or_int beta then Inl (TypeError ''`beta` should be a float or integer'')
      else if num beta < 0 then Inl (ValueError ''`beta` should be >= 0'')
      else Inr (self\<lparr>sa_beta := num beta\<rparr>))"


section \<open>Simulated Annealing: the update\<close>

text \<open>
  The objective function maps the contents of a position array to a fitness, a Python float;
  it reads the array and changes nothing.
\<close>

type_synonym objective = "ndarray \<Rightarrow> real"

text \<open>
  The two assignments of an accepting branch (sa.py, lines 122-123 and 128-129):
  \<open>agent.position = copy.deepcopy(a.position)\<close> and \<open>agent.fit = copy.deepcopy(a.fit)\<close>.
\<close>

definition SA_accept :: "addr \<Rightarrow> addr \<Rightarrow> world \<Rightarrow> world" where
  "SA_accept a agent w =
     (let (q, w1) = deepcopy_array (position (objects w a)) w;
          w2 = set_position agent q w1
      in set_fit agent (fit (objects w2 a)) w2)"

text \<open>
  The candidate of one agent (sa.py, lines 102-117): the deep copy, the noise, the clipping,
  the evaluation, and the uniform draw \<open>r1\<close>.  The result is the candidate's address, \<open>r1\<close>
  and the store.
\<close>

definition SA_candidate :: "objective \<Rightarrow> addr \<Rightarrow> world \<Rightarrow> addr \<times> real \<times> world" where
  "SA_candidate function agent w =
     (let (a, w1) = deepcopy_agent agent w;
          (noise, w2) = generate_gaussian_random_matrix 0 0.1
                          (n_variables (objects w1 agent), n_dimensions (objects w1 agent)) w1;
          w3 = position_iadd a noise w2;
          w4 = clip_by_bound a w3;
          w5 = set_fit a (function (position_of w4 a)) w4;
          (r1, w6) = generate_uniform_random_number 0 1 w5
      in (a, r1, w6))"

text \<open>The body of the loop over the agents (sa.py, lines 100-129).\<close>

definition SA_agent_step :: "sa \<Rightarrow> objective \<Rightarrow> addr \<Rightarrow> world \<Rightarrow> error + world" where
  "SA_agent_step self function agent w =
     (let (a, r1, w6) = SA_candidate function agent w
      in if fit (objects w6 a) < fit (objects w6 agent) then Inr (SA_accept a agent w6)
         else case py_div (- (fit (objects w6 a) - fit (objects w6 agent))) (sa_T self) of
                Inl err \<Rightarrow> Inl err
              | Inr x \<Rightarrow> if r1 < exp x then Inr (SA_accept a agent w6) else Inr w6)"

fun SA_agents_loop :: "sa \<Rightarrow> objective \<Rightarrow> addr list \<Rightarrow> world \<Rightarrow> error + world" where
  "SA_agents_loop self function [] w = Inr w"
| "SA_agents_loop self function (agent # agents) w =
     (case SA_agent_step self function agent w of
        Inl err \<Rightarrow> Inl err
      | Inr w' \<Rightarrow> SA_agents_loop self function agents w')"

text \<open>
  \<open>SA._update\<close> (sa.py, lines 90-132).  The last statement, \<open>self.T *= self.beta\<close>, assigns
  through the setter of \<open>T\<close>.  The list of agents is handed back as it is after the call.
  The product is the product of real numbers: it is 0 only when a factor is 0, whereas the
  product of two positive doubles can underflow to 0.  The value of the temperature after a
  pass is not affected by this, but a statement that a positive temperature stays positive
  holds of the real product only.
\<close>

definition SA_update :: "sa \<Rightarrow> addr list \<Rightarrow> objective \<Rightarrow> world \<Rightarrow> error + sa \<times> addr list \<times> world" where
  "SA_update self agents function w =
     (case SA_agents_loop self function agents w of
        Inl err \<Rightarrow> Inl err
      | Inr w' \<Rightarrow>
          (case SA_T_setter (PFloat (sa_T self * sa_beta self)) self of
             Inl err \<Rightarrow> Inl err
           | Inr self' \<Rightarrow> Inr (self', agents, w')))"


subsection \<open>The update in the words of the specification\<close>

text \<open>
  Section 4.3: the candidate of an agent is its current position plus elementwise Gaussian
  noise of mean 0 and deviation 0.1, clipped to the bounds; its fitness is the objective at
  that position; one fresh uniform draw decides the Metropolis test.  These definitions read
  the store before the agent's step and change nothing.
\<close>

definition SA_noise :: "world \<Rightarrow> addr \<Rightarrow> ndarray" where
  "SA_noise w agent =
     map (\<lambda>i. map (\<lambda>j. 0 + 0.1 * normal_draws w (normal_count w + i * n_dimensions (objects w agent) + j))
                 [0..<n_dimensions (objects w agent)])
         [0..<n_variables (objects w agent)]"

definition SA_candidate_position :: "world \<Rightarrow> addr \<Rightarrow> ndarray" where
  "SA_candidate_position w agent =
     clip_rows (map2 (map2 (+)) (position_of w agent) (SA_noise w agent))
       (lb (objects w agent)) (ub (objects w agent))"

definition SA_candidate_fit :: "objective \<Rightarrow> world \<Rightarrow> addr \<Rightarrow> real" where
  "SA_candidate_fit function w agent = function (SA_candidate_position w agent)"

definition SA_uniform_draw :: "world \<Rightarrow> real" where
  "SA_uniform_draw w = uniform_draws w (uniform_count w)"

text \<open>
  The acceptance rule: a strictly better candidate is accepted whatever the draw; any other
  candidate is accepted exactly when the draw is below \<open>exp (- (candidate - current) / T)\<close>.
\<close>

definition SA_accepts :: "sa \<Rightarrow> objective \<Rightarrow> world \<Rightarrow> addr \<Rightarrow> bool" where
  "SA_accepts self function w agent =
     (SA_candidate_fit function w agent < fit (objects w agent) \<or>
      SA_uniform_draw w
        < exp (- (SA_candidate_fit function w agent - fit (objects w agent)) / sa_T self))"

text \<open>
  An agent of the store: its object and its position array have been allocated.
\<close>

definition allocated :: "world \<Rightarrow> addr \<Rightarrow> bool" where
  "allocated w p = (p < next_object w \<and> position (objects w p) < next_array w)"


section \<open>Cross-Entropy Method: parameters\<close>

text \<open>
  The optimizer object of \<open>cem.py\<close>: the private attributes \<open>_n_updates\<close> (an \<open>int\<close>) and
  \<open>_alpha\<close> (a number).
\<close>

record cem =
  cem_n_updates :: int
  cem_alpha :: real

text \<open>\<open>@n_updates.setter\<close> (cem.py, lines 59-66).\<close>

definition CEM_n_updates_setter :: "pyval \<Rightarrow> cem \<Rightarrow> error + cem" where
  "CEM_n_updates_setter n_updates self =
     (if \<not> is_int n_updates then Inl (TypeError ''`n_updates` should be an integer'')
      else if num n_updates \<le> 0 then Inl (ValueError ''`n_updates` should be > 0'')
      else Inr (self\<lparr>cem_n_updates := int_of n_updates\<rparr>))"

text \<open>\<open>@alpha.setter\<close> (cem.py, lines 76-83).\<close>

definition CEM_alpha_setter :: "pyval \<Rightarrow> cem \<Rightarrow> error + cem" where
  "CEM_alpha_setter alpha self =
     (if \<not> is_float_or_int alpha then Inl (TypeError ''`alpha` should be a float or integer'')
      else if num alpha < 0 then Inl (ValueError ''`alpha` should be >= 0'')
      else Inr (self\<lparr>cem_alpha := num alpha\<rparr>))"


section \<open>Cross-Entropy Method: the update\<close>

text \<open>\<open>agent.position[j] = row\<close>: the row is written in place.\<close>

definition set_row :: "addr \<Rightarrow> nat \<Rightarrow> real list \<Rightarrow> world \<Rightarrow> world" where
  "set_row p j row w =
     w\<lparr>arrays := (arrays w)(position (objects w p) := (position_of w p)[j := row])\<rparr>"

text \<open>
  The inner loop of \<open>_create_new_samples\<close> (cem.py, lines 99-101) over
  \<open>enumerate(zip(mean, std))\<close>; writing a row the position does not have raises
  \<open>IndexError\<close>.
\<close>

fun CEM_sample_rows :: "addr \<Rightarrow> nat \<Rightarrow> (real \<times> real) list \<Rightarrow> world \<Rightarrow> error + world" where
  "CEM_sample_rows agent j [] w = Inr w"
| "CEM_sample_rows agent j ((m, s) # rest) w =
     (let (row, w1) = generate_gaussian_random_number m s (n_dimensions (objects w agent)) w
      in if j < length (position_of w1 agent)
         then CEM_sample_rows agent (Suc j) rest (set_row agent j row w1)
         else Inl IndexError)"

text \<open>\<open>CEM._create_new_samples\<close> (cem.py, lines 85-107).\<close>

fun CEM_create_new_samples :: "addr list \<Rightarrow> objective \<Rightarrow> real list \<Rightarrow> real list \<Rightarrow> world \<Rightarrow> error + world" where
  "CEM_create_new_samples [] function mean std w = Inr w"
| "CEM_create_new_samples (agent # agents) function mean std w =
     (case CEM_sample_rows agent 0 (zip mean std) w of
        Inl err \<Rightarrow> Inl err
      | Inr w1 \<Rightarrow>
          (let w2 = clip_by_bound agent w1;
               w3 = set_fit agent (function (position_of w2 agent)) w2
           in CEM_create_new_samples agents function mean std w3))"

text \<open>
  \<open>np.mean\<close> of a two-dimensional array: the sum of all its elements over their number.
  (On an array without elements numpy answers \<open>nan\<close>; the division below answers 0.)
\<close>

definition np_mean :: "ndarray \<Rightarrow> real" where
  "np_mean xs = sum_list (concat xs) / real (length (concat xs))"

text \<open>\<open>CEM._update_mean\<close> (cem.py, lines 109-124), for one decision variable.\<close>

definition CEM_update_mean :: "cem \<Rightarrow> ndarray \<Rightarrow> real \<Rightarrow> real" where
  "CEM_update_mean self updates mean = cem_alpha self * mean + (1 - cem_alpha self) * np_mean updates"

text \<open>\<open>CEM._update_std\<close> (cem.py, lines 126-142), for one decision variable.\<close>

definition CEM_update_std :: "cem \<Rightarrow> ndarray \<Rightarrow> real \<Rightarrow> real \<Rightarrow> real" where
  "CEM_update_std self updates mean std =
     cem_alpha self * std
       + (1 - cem_alpha self) * sqrt (np_mean (map (map (\<lambda>x. (x - mean)\<^sup>2)) updates))"

text \<open>The slice \<open>xs[:n]\<close>; a negative \<open>n\<close> counts from the end.\<close>

definition slice_to :: "int \<Rightarrow> 'a list \<Rightarrow> 'a list" where
  "slice_to n xs = (if 0 \<le> n then take (nat n) xs else take (nat (int (length xs) + n)) xs)"

text \<open>
  \<open>update_position[:, j, :]\<close> on the three-dimensional array built from the elite positions:
  row \<open>j\<close> of every elite.  An empty list of elites gives a one-dimensional array, and a
  \<open>j\<close> beyond the rows is out of range: both raise \<open>IndexError\<close>.
\<close>

definition variable_rows :: "ndarray list \<Rightarrow> nat \<Rightarrow> error + ndarray" where
  "variable_rows update_position j =
     (if update_position = [] \<or> (\<exists>p \<in> set update_position. length p \<le> j) then Inl IndexError
      else Inr (map (\<lambda>p. p ! j) update_position))"

text \<open>
  The loop over the decision variables (cem.py, lines 165-168).  The mean is assigned first;
  the call of \<open>_update_std\<close> then reads \<open>mean[j]\<close> and \<open>std[j]\<close>.
\<close>

fun CEM_update_variables :: "cem \<Rightarrow> ndarray list \<Rightarrow> nat list \<Rightarrow> real list \<Rightarrow> real list \<Rightarrow> error + real list \<times> real list" where
  "CEM_update_variables self update_position [] mean std = Inr (mean, std)"
| "CEM_update_variables self update_position (j # js) mean std =
     (case variable_rows update_position j of
        Inl err \<Rightarrow> Inl err
      | Inr updates \<Rightarrow>
          if length mean \<le> j then Inl IndexError
          else (let mean1 = mean[j := CEM_update_mean self updates (mean ! j)]
                in if length std \<le> j then Inl IndexError
                   else CEM_update_variables self update_position js mean1
                          (std[j := CEM_update_std self updates (mean1 ! j) (std ! j)])))"

text \<open>
  \<open>CEM._update\<close> (cem.py, lines 144-168).  \<open>agents.sort(key=lambda x: x.fit)\<close> is a stable
  sort of the list of references; the list, the means and the deviations are handed back as
  they are after the call.
\<close>

definition CEM_elites :: "cem \<Rightarrow> addr list \<Rightarrow> world \<Rightarrow> ndarray list" where
  "CEM_elites self agents w = map (position_of w) (slice_to (cem_n_updates self) agents)"

definition CEM_update :: "cem \<Rightarrow> addr list \<Rightarrow> objective \<Rightarrow> real list \<Rightarrow> real list \<Rightarrow> world
    \<Rightarrow> error + addr list \<times> real list \<times> real list \<times> world" where
  "CEM_update self agents function mean std w =
     (case CEM_create_new_samples agents function mean std w of
        Inl err \<Rightarrow> Inl err
      | Inr w1 \<Rightarrow>
          (let agents1 = sort_key (\<lambda>x. fit (objects w1 x)) agents;
               update_position = CEM_elites self agents1 w1
           in case CEM_update_variables self update_position [0..<length mean] mean std of
                Inl err \<Rightarrow> Inl err
              | Inr (mean1, std1) \<Rightarrow> Inr (agents1, mean1, std1, w1)))"


subsection \<open>The update in the words of the specification\<close>

text \<open>
  Section 4.3: the elites are the \<open>n_updates\<close> best agents of the sorted population; the
  elite positions for the decision variable \<open>j\<close> are row \<open>j\<close> of each of them.
\<close>

definition elite_rows :: "cem \<Rightarrow> addr list \<Rightarrow> world \<Rightarrow> nat \<Rightarrow> ndarray" where
  "elite_rows self sorted_agents w j = map (\<lambda>p. p ! j) (CEM_elites self sorted_agents w)"

text \<open>
  Two stores have the same layout when every array has kept its number of rows and every
  agent its position array.
\<close>

definition same_layout :: "world \<Rightarrow> world \<Rightarrow> bool" where
  "same_layout w w' =
     ((\<forall>q. length (arrays w' q) = length (arrays w q)) \<and>
      (\<forall>p. position (objects w' p) = position (objects w p)))"


section \<open>The search space, the history and the evaluation\<close>

text \<open>
  Modelled from the spec: the classes \<open>Space\<close> and \<open>History\<close> and the method
  \<open>Optimizer._evaluate\<close> are not among the sources.  Section 3 gives the fields of a space:
  the ordered agents, the bounds, the iteration budget, and the best agent, held by value
  (position contents and fitness).
\<close>

record space =
  agents :: "addr list"
  best_agent :: "ndarray \<times> real"
  space_lb :: "real list"
  space_ub :: "real list"
  n_iterations :: nat
  space_n_variables :: nat

text \<open>
  Modelled from the spec: a history is an append-only sequence of records; a record holds the
  best agent alone or the whole population with the best agent, as \<open>store_best_only\<close> says
  (sections 3 and 4.4).
\<close>

datatype snapshot = BestOnly "ndarray \<times> real" | Population "(ndarray \<times> real) list" "ndarray \<times> real"

record history =
  store_best_only :: bool
  dumps :: "snapshot list"

definition History :: "bool \<Rightarrow> history" where
  "History flag = \<lparr>store_best_only = flag, dumps = []\<rparr>"

definition dump :: "space \<Rightarrow> world \<Rightarrow> history \<Rightarrow> history" where
  "dump sp w h =
     h\<lparr>dumps := dumps h @
         [if store_best_only h then BestOnly (best_agent sp)
          else Population (map (\<lambda>a. (position_of w a, fit (objects w a))) (agents sp)) (best_agent sp)]\<rparr>"

text \<open>
  Modelled from the spec: \<open>Space.clip_by_bound\<close> clips every agent (section 4.1).
\<close>

definition space_clip_by_bound :: "space \<Rightarrow> world \<Rightarrow> world" where
  "space_clip_by_bound sp w = fold clip_by_bound (agents sp) w"

text \<open>
  Modelled from the spec: the pre-evaluation hook receives the space, returns nothing and may
  change the space and the agents (section 6).
\<close>

type_synonym hook = "space \<times> world \<Rightarrow> space \<times> world"

text \<open>
  Modelled from the spec: \<open>_evaluate(space, function, hook)\<close> runs the hook, if there is one,
  computes the fitness of every agent, and then makes the best agent a copy by value of the
  agent of lowest fitness, the first of them in the order of the population, when that agent
  is better than the best seen so far (sections 3, 4.1 and 4.2).
\<close>

fun evaluate_agents :: "addr list \<Rightarrow> objective \<Rightarrow> world \<Rightarrow> world" where
  "evaluate_agents [] function w = w"
| "evaluate_agents (a # as) function w =
     evaluate_agents as function (set_fit a (function (position_of w a)) w)"

fun lowest_agent :: "world \<Rightarrow> addr \<Rightarrow> addr list \<Rightarrow> addr" where
  "lowest_agent w b [] = b"
| "lowest_agent w b (a # as) =
     lowest_agent w (if fit (objects w a) < fit (objects w b) then a else b) as"

definition evaluate :: "space \<Rightarrow> objective \<Rightarrow> hook option \<Rightarrow> world \<Rightarrow> space \<times> world" where
  "evaluate sp function pre_evaluate w =
     (let (sp1, w1) = (case pre_evaluate of None \<Rightarrow> (sp, w) | Some h \<Rightarrow> h (sp, w));
          w2 = evaluate_agents (agents sp1) function w1
      in case agents sp1 of
           [] \<Rightarrow> (sp1, w2)
         | a # as \<Rightarrow>
             (let m = lowest_agent w2 a as
              in if fit (objects w2 m) < snd (best_agent sp1)
                 then (sp1\<lparr>best_agent := (position_of w2 m, fit (objects w2 m))\<rparr>, w2)
                 else (sp1, w2)))"


section \<open>The optimization pipeline\<close>

text \<open>
  The calls that \<open>run\<close> makes, written down in the order in which it makes them.  The log
  belongs to the model of \<open>run\<close> alone: neither the hook nor a strategy can reach it.
\<close>

datatype call = Evaluate | NewHistory | Update | Clip | Dump

subsection \<open>Simulated Annealing\<close>

record sa_state =
  sa_self :: sa
  sa_space :: space
  sa_history :: history
  sa_world :: world
  sa_calls :: "call list"

text \<open>The body of the loop over the iterations (sa.py, lines 157-177).\<close>

definition SA_iteration :: "objective \<Rightarrow> hook option \<Rightarrow> sa_state \<Rightarrow> error + sa_state" where
  "SA_iteration function pre_evaluate st =
     (let c1 = sa_calls st @ [Update]
      in case SA_update (sa_self st) (agents (sa_space st)) function (sa_world st) of
           Inl err \<Rightarrow> Inl err
         | Inr (self1, agents1, w1) \<Rightarrow>
             (let sp1 = (sa_space st)\<lparr>agents := agents1\<rparr>;
                  c2 = c1 @ [Clip];
                  w2 = space_clip_by_bound sp1 w1;
                  c3 = c2 @ [Evaluate];
                  (sp3, w3) = evaluate sp1 function pre_evaluate w2;
                  c4 = c3 @ [Dump];
                  h4 = dump sp3 w3 (sa_history st)
              in Inr \<lparr>sa_self = self1, sa_space = sp3, sa_history = h4, sa_world = w3,
                       sa_calls = c4\<rparr>))"

fun SA_iterations :: "objective \<Rightarrow> hook option \<Rightarrow> nat \<Rightarrow> sa_state \<Rightarrow> error + sa_state" where
  "SA_iterations function pre_evaluate 0 st = Inr st"
| "SA_iterations function pre_evaluate (Suc n) st =
     (case SA_iteration function pre_evaluate st of
        Inl err \<Rightarrow> Inl err
      | Inr st' \<Rightarrow> SA_iterations function pre_evaluate n st')"

text \<open>
  \<open>SA.run\<close> (sa.py, lines 134-179).  The history it returns is \<open>sa_history\<close> of the result;
  the optimizer, the space and the store are handed back as they are after the call.  The
  budget \<open>range(space.n_iterations)\<close> is read once, after the initial evaluation; it is a
  natural number.
\<close>

definition SA_run :: "sa \<Rightarrow> space \<Rightarrow> objective \<Rightarrow> bool \<Rightarrow> hook option \<Rightarrow> world \<Rightarrow> error + sa_state" where
  "SA_run self sp function flag pre_evaluate w =
     (let c1 = [Evaluate];
          (sp1, w1) = evaluate sp function pre_evaluate w;
          c2 = c1 @ [NewHistory];
          h = History flag
      in SA_iterations function pre_evaluate (n_iterations sp1)
           \<lparr>sa_self = self, sa_space = sp1, sa_history = h, sa_world = w1, sa_calls = c2\<rparr>)"

subsection \<open>Cross-Entropy Method\<close>

record cem_state =
  cem_mean :: "real list"
  cem_std :: "real list"
  cem_space :: space
  cem_history :: history
  cem_world :: world
  cem_calls :: "call list"

text \<open>
  The initial means and deviations (cem.py, lines 185-192): two arrays of
  \<open>space.n_variables\<close> zeros, filled over \<open>enumerate(zip(space.lb, space.ub))\<close>.
\<close>

fun CEM_initial :: "nat \<Rightarrow> (real \<times> real) list \<Rightarrow> real list \<Rightarrow> real list \<Rightarrow> world
    \<Rightarrow> error + real list \<times> real list \<times> world" where
  "CEM_initial j [] mean std w = Inr (mean, std, w)"
| "CEM_initial j ((l, u) # rest) mean std w =
     (let (x, w1) = generate_uniform_random_number l u w
      in if length mean \<le> j then Inl IndexError
         else if length std \<le> j then Inl IndexError
         else CEM_initial (Suc j) rest (mean[j := x]) (std[j := u - l]) w1)"

text \<open>The body of the loop over the iterations (cem.py, lines 203-223).\<close>

definition CEM_iteration :: "cem \<Rightarrow> objective \<Rightarrow> hook option \<Rightarrow> cem_state \<Rightarrow> error + cem_state" where
  "CEM_iteration self function pre_evaluate st =
     (let c1 = cem_calls st @ [Update]
      in case CEM_update self (agents (cem_space st)) function (cem_mean st) (cem_std st)
                (cem_world st) of
           Inl err \<Rightarrow> Inl err
         | Inr (agents1, mean1, std1, w1) \<Rightarrow>
             (let sp1 = (cem_space st)\<lparr>agents := agents1\<rparr>;
                  c2 = c1 @ [Clip];
                  w2 = space_clip_by_bound sp1 w1;
                  c3 = c2 @ [Evaluate];
                  (sp3, w3) = evaluate sp1 function pre_evaluate w2;
                  c4 = c3 @ [Dump];
                  h4 = dump sp3 w3 (cem_history st)
              in Inr \<lparr>cem_mean = mean1, cem_std = std1, cem_space = sp3, cem_history = h4,
                       cem_world = w3, cem_calls = c4\<rparr>))"

fun CEM_iterations :: "cem \<Rightarrow> objective \<Rightarrow> hook option \<Rightarrow> nat \<Rightarrow> cem_state \<Rightarrow> error + cem_state" where
  "CEM_iterations self function pre_evaluate 0 st = Inr st"
| "CEM_iterations self function pre_evaluate (Suc n) st =
     (case CEM_iteration self function pre_evaluate st of
        Inl err \<Rightarrow> Inl err
      | Inr st' \<Rightarrow> CEM_iterations self function pre_evaluate n st')"

text \<open>
  \<open>CEM.run\<close> (cem.py, lines 170-225).  The history it returns is \<open>cem_history\<close> of the result.
\<close>

definition CEM_run :: "cem \<Rightarrow> space \<Rightarrow> objective \<Rightarrow> bool \<Rightarrow> hook option \<Rightarrow> world \<Rightarrow> error + cem_state" where
  "CEM_run self sp function flag pre_evaluate w =
     (case CEM_initial 0 (zip (space_lb sp) (space_ub sp))
             (replicate (space_n_variables sp) 0) (replicate (space_n_variables sp) 0) w of
        Inl err \<Rightarrow> Inl err
      | Inr (mean, std, w0) \<Rightarrow>
          (let c1 = [Evaluate];
               (sp1, w1) = evaluate sp function pre_evaluate w0;
               c2 = c1 @ [NewHistory];
               h = History flag
           in CEM_iterations self function pre_evaluate (n_iterations sp1)
                \<lparr>cem_mean = mean, cem_std = std, cem_space = sp1, cem_history = h,
                 cem_world = w1, cem_calls = c2\<rparr>))"


subsection \<open>The lifecycle in the words of the specification\<close>

text \<open>
  Section 4.2: an initial evaluation, a new history, and then, for each of the
  \<open>n_iterations\<close> iterations and in this order, the update of the strategy, the clipping, the
  evaluation and the dump.
\<close>

definition lifecycle_calls :: "nat \<Rightarrow> call list" where
  "lifecycle_calls n = [Evaluate, NewHistory] @ concat (replicate n [Update, Clip, Evaluate, Dump])"

text \<open>A hook keeps the budget when it leaves \<open>n_iterations\<close> of the space as it is.\<close>

definition hook_keeps_budget :: "hook option \<Rightarrow> bool" where
  "hook_keeps_budget pre_evaluate =
     (\<forall>h. pre_evaluate = Some h \<longrightarrow> (\<forall>sp w. n_iterations (fst (h (sp, w))) = n_iterations sp))"

text \<open>A hook keeps the population when it leaves the list of agents of the space as it is.\<close>

definition hook_keeps_agents :: "hook option \<Rightarrow> bool" where
  "hook_keeps_agents pre_evaluate =
     (\<forall>h. pre_evaluate = Some h \<longrightarrow> (\<forall>sp w. agents (fst (h (sp, w))) = agents sp))"

text \<open>
  A population is ready for the Cross-Entropy Method with \<open>n\<close> decision variables when it is
  not empty and the position of every agent has at least \<open>n\<close> rows; a hook keeps the shape
  when it turns a ready population into a ready one.
\<close>

definition cem_ready :: "space \<Rightarrow> world \<Rightarrow> nat \<Rightarrow> bool" where
  "cem_ready sp w n = (agents sp \<noteq> [] \<and> (\<forall>a \<in> set (agents sp). n \<le> length (position_of w a)))"

definition hook_keeps_shape :: "hook option \<Rightarrow> nat \<Rightarrow> bool" where
  "hook_keeps_shape pre_evaluate n =
     (\<forall>h. pre_evaluate = Some h \<longrightarrow>
        (\<forall>sp w. cem_ready sp w n \<longrightarrow> cem_ready (fst (h (sp, w))) (snd (h (sp, w))) n))"


text \<open>The invariant of the loop of \<open>CEM.run\<close>: a ready population, and one mean and one deviation
  per decision variable.\<close>

definition cem_inv :: "nat \<Rightarrow> cem_state \<Rightarrow> bool" where
  "cem_inv n st = (cem_ready (cem_space st) (cem_world st) n \<and>
     length (cem_mean st) = n \<and> length (cem_std st) = n)"

section \<open>Example configurations\<close>

text \<open>
  The objective of the end-to-end scenario of the specification, the sum of squares, and a
  small population: two agents of one decision variable of one dimension, bounds [-10, 10],
  at positions 3 and 1.
\<close>

definition sphere :: objective where
  "sphere x = sum_list (map (\<lambda>v. v\<^sup>2) (concat x))"

definition example_agent :: "addr \<Rightarrow> real \<Rightarrow> agent" where
  "example_agent p f =
     \<lparr>position = p, fit = f, lb = [- 10], ub = [10], n_variables = 1, n_dimensions = 1\<rparr>"

definition example_world :: "(nat \<Rightarrow> real) \<Rightarrow> (nat \<Rightarrow> real) \<Rightarrow> world" where
  "example_world normals uniforms =
     \<lparr>arrays = (\<lambda>_. [])(0 := [[3]], Suc 0 := [[1]]),
      objects = (\<lambda>_. example_agent 0 0)(0 := example_agent 0 9, Suc 0 := example_agent (Suc 0) 1),
      next_array = 2, next_object = 2,
      normal_draws = normals, uniform_draws = uniforms,
      normal_count = 0, uniform_count = 0\<rparr>"

text \<open>Optimizers: the default decay of \<open>sa.py\<close> with a given temperature.\<close>

definition example_sa :: "real \<Rightarrow> sa" where
  "example_sa T = \<lparr>sa_T = T, sa_beta = 999 / 1000\<rparr>"

definition example_cem :: "int \<Rightarrow> real \<Rightarrow> cem" where
  "example_cem n alpha = \<lparr>cem_n_updates = n, cem_alpha = alpha\<rparr>"

text \<open>Sequences of draws: constant ones, and one that starts with 2 and goes on with 1.\<close>

definition draws_zero :: "nat \<Rightarrow> real" where
  "draws_zero i = 0"

definition draws_half :: "nat \<Rightarrow> real" where
  "draws_half i = 1 / 2"

definition draws_one :: "nat \<Rightarrow> real" where
  "draws_one i = 1"


definition draws_two_one :: "nat \<Rightarrow> real" where
  "draws_two_one i = (if i = 0 then 2 else 1)"


text \<open>The space of the example population, with a budget of two iterations.\<close>

definition example_space :: space where
  "example_space =
     \<lparr>agents = [0, Suc 0], best_agent = ([[3]], 9), space_lb = [- 10], space_ub = [10],
      n_iterations = 2, space_n_variables = 1\<rparr>"

text \<open>The store after the resampling of the example population around mean 0 with deviation 1.\<close>

definition example_resampled :: world where
  "example_resampled =
     projr (CEM_create_new_samples [0, Suc 0] sphere [0] [1] (example_world draws_two_one draws_zero))"


section \<open>Parameter validation\<close>

text \<open>
  Claim C5.  Every setter validates when the value is assigned, and stores nothing on a
  failure.  The setters of \<open>T\<close> and \<open>beta\<close> of Simulated Annealing and of \<open>alpha\<close> of the
  Cross-Entropy Method raise a type error for a value that is neither a float nor an integer and
  a value error for a negative number; the setter of \<open>n_updates\<close> raises a type error for
  every value that is not an integer, 2.5 among them, and a value error for 0 and for every
  negative integer.
\<close>

theorem setters_validate:
  "(\<not> is_float_or_int v \<longrightarrow>
      SA_T_setter v s = Inl (TypeError ''`T` should be a float or integer'') \<and>
      SA_beta_setter v s = Inl (TypeError ''`beta` should be a float or integer'') \<and>
      CEM_alpha_setter v c = Inl (TypeError ''`alpha` should be a float or integer'')) \<and>
   (is_float_or_int v \<and> num v < 0 \<longrightarrow>
      SA_T_setter v s = Inl (ValueError ''`T` should be >= 0'') \<and>
      SA_beta_setter v s = Inl (ValueError ''`beta` should be >= 0'') \<and>
      CEM_alpha_setter v c = Inl (ValueError ''`alpha` should be >= 0'')) \<and>
   (\<not> is_int v \<longrightarrow>
      CEM_n_updates_setter v c = Inl (TypeError ''`n_updates` should be an integer'')) \<and>
   CEM_n_updates_setter (PFloat 2.5) c = Inl (TypeError ''`n_updates` should be an integer'') \<and>
   (is_int v \<and> int_of v \<le> 0 \<longrightarrow>
      CEM_n_updates_setter v c = Inl (ValueError ''`n_updates` should be > 0''))"
proof -
  have "is_int v \<Longrightarrow> num v = real_of_int (int_of v)"
    by (cases v) auto
  then show ?thesis
    by (auto simp: SA_T_setter_def SA_beta_setter_def CEM_alpha_setter_def
        CEM_n_updates_setter_def)
qed

theorem setters_validate_witness:
  "SA_T_setter (PStr ''hot'') \<lparr>sa_T = 100, sa_beta = 0.999\<rparr>
     = Inl (TypeError ''`T` should be a float or integer'') \<and>
   SA_beta_setter (PFloat (- 0.5)) \<lparr>sa_T = 100, sa_beta = 0.999\<rparr>
     = Inl (ValueError ''`beta` should be >= 0'') \<and>
   CEM_alpha_setter PNone \<lparr>cem_n_updates = 5, cem_alpha = 0.7\<rparr>
     = Inl (TypeError ''`alpha` should be a float or integer'') \<and>
   CEM_alpha_setter (PInt (- 1)) \<lparr>cem_n_updates = 5, cem_alpha = 0.7\<rparr>
     = Inl (ValueError ''`alpha` should be >= 0'') \<and>
   CEM_n_updates_setter (PFloat 2.5) \<lparr>cem_n_updates = 5, cem_alpha = 0.7\<rparr>
     = Inl (TypeError ''`n_updates` should be an integer'') \<and>
   CEM_n_updates_setter (PInt 0) \<lparr>cem_n_updates = 5, cem_alpha = 0.7\<rparr>
     = Inl (ValueError ''`n_updates` should be > 0'') \<and>
   CEM_n_updates_setter (PInt (- 3)) \<lparr>cem_n_updates = 5, cem_alpha = 0.7\<rparr>
     = Inl (ValueError ''`n_updates` should be > 0'')"
  using setters_validate [of "PStr ''hot''" "\<lparr>sa_T = 100, sa_beta = 0.999\<rparr>"
                             "\<lparr>cem_n_updates = 5, cem_alpha = 0.7\<rparr>"]
        setters_validate [of "PFloat (- 0.5)" "\<lparr>sa_T = 100, sa_beta = 0.999\<rparr>"
                             "\<lparr>cem_n_updates = 5, cem_alpha = 0.7\<rparr>"]
        setters_validate [of PNone "\<lparr>sa_T = 100, sa_beta = 0.999\<rparr>"
                             "\<lparr>cem_n_updates = 5, cem_alpha = 0.7\<rparr>"]
        setters_validate [of "PInt (- 1)" "\<lparr>sa_T = 100, sa_beta = 0.999\<rparr>"
                             "\<lparr>cem_n_updates = 5, cem_alpha = 0.7\<rparr>"]
        setters_validate [of "PInt 0" "\<lparr>sa_T = 100, sa_beta = 0.999\<rparr>"
                             "\<lparr>cem_n_updates = 5, cem_alpha = 0.7\<rparr>"]
        setters_validate [of "PInt (- 3)" "\<lparr>sa_T = 100, sa_beta = 0.999\<rparr>"
                             "\<lparr>cem_n_updates = 5, cem_alpha = 0.7\<rparr>"]
  by simp


section \<open>Properties of the Simulated Annealing update\<close>

text \<open>What the construction of the candidate does to the store.\<close>

lemma SA_candidate_spec:
  assumes "allocated w agent" and "SA_candidate function agent w = (a, r1, w6)"
  shows "a = next_object w" "r1 = SA_uniform_draw w"
     "position_of w6 a = SA_candidate_position w agent"
     "fit (objects w6 a) = SA_candidate_fit function w agent"
     "position (objects w6 a) = next_array w"
     "\<And>p. p \<noteq> next_object w \<Longrightarrow> objects w6 p = objects w p"
     "\<And>q. q \<noteq> next_array w \<Longrightarrow> arrays w6 q = arrays w q"
     "next_object w6 = Suc (next_object w)" "next_array w6 = Suc (next_array w)"
     "normal_draws w6 = normal_draws w" "uniform_draws w6 = uniform_draws w"
     "normal_count w6 = normal_count w + n_variables (objects w agent) * n_dimensions (objects w agent)"
     "uniform_count w6 = Suc (uniform_count w)"
  using assms
  by (auto simp: SA_candidate_def deepcopy_agent_def deepcopy_array_def
      generate_gaussian_random_matrix_def position_iadd_def clip_by_bound_def set_fit_def
      generate_uniform_random_number_def position_of_def SA_candidate_position_def SA_noise_def
      SA_candidate_fit_def SA_uniform_draw_def allocated_def Let_def split: prod.splits)










text \<open>
  Claim C9.  When the candidate is rejected, the agent's step leaves the agent as it was: its
  object (position reference and fitness) and the contents of its position array are the ones
  from before the step.  More than that, every object and every array allocated before the
  step is unchanged: the candidate lives in cells allocated by the deep copy, and the noise
  and the clipping write only there.
\<close>

theorem SA_rejection_frame:
  assumes al: "allocated w agent"
    and T: "sa_T self \<noteq> 0"
    and rej: "\<not> SA_accepts self function w agent"
  shows "\<exists>w'. SA_agent_step self function agent w = Inr w' \<and>
      objects w' agent = objects w agent \<and>
      position_of w' agent = position_of w agent \<and>
      fit (objects w' agent) = fit (objects w agent) \<and>
      (\<forall>p < next_object w. objects w' p = objects w p) \<and>
      (\<forall>q < next_array w. arrays w' q = arrays w q)"
proof -
  obtain a r1 w6 where c: "SA_candidate function agent w = (a, r1, w6)"
    by (metis prod_cases3)
  note f = SA_candidate_spec [OF al c]
  have st: "SA_agent_step self function agent w = Inr w6"
    using c f(2,4) rej T al f(6) [of agent]
    by (auto simp: SA_agent_step_def SA_accepts_def py_div_def allocated_def)
  have o: "\<forall>p < next_object w. objects w6 p = objects w p"
    using f(6) by simp
  have a: "\<forall>q < next_array w. arrays w6 q = arrays w q"
    using f(7) by simp
  have "objects w6 agent = objects w agent" using o al by (simp add: allocated_def)
  moreover from this have "position_of w6 agent = position_of w agent"
    using a al by (simp add: position_of_def allocated_def)
  ultimately show ?thesis using st o a by simp
qed

theorem SA_rejection_frame_witness:
  "\<exists>w'. SA_agent_step (example_sa (61 / 100)) sphere 0
            (example_world draws_one draws_half) = Inr w' \<and>
        objects w' 0 = example_agent 0 9 \<and> position_of w' 0 = [[3]] \<and>
        objects w' (Suc 0) = example_agent (Suc 0) 1 \<and> arrays w' (Suc 0) = [[1]]"
proof -
  let ?w = "example_world draws_one draws_half"
  let ?self = "example_sa (61 / 100)"
  have al: "allocated ?w 0"
    by (simp add: allocated_def example_world_def example_agent_def)
  have T: "sa_T ?self \<noteq> 0" by (simp add: example_sa_def)
  have pos: "SA_candidate_position ?w 0 = [[31 / 10]]"
    by (simp add: SA_candidate_position_def SA_noise_def position_of_def example_world_def
        example_agent_def draws_one_def)
  have cf: "SA_candidate_fit sphere ?w 0 = 961 / 100"
    by (simp add: SA_candidate_fit_def pos sphere_def power2_eq_square)
  have f: "fit (objects ?w 0) = 9"
    by (simp add: example_world_def example_agent_def)
  have u: "SA_uniform_draw ?w = 1 / 2"
    by (simp add: SA_uniform_draw_def example_world_def draws_half_def)
  have "(2::real) \<le> exp 1" using exp_ge_add_one_self [of "1::real"] by simp
  then have e: "exp (- 1 :: real) \<le> 1 / 2"
    by (simp add: exp_minus inverse_eq_divide field_simps)
  have rej: "\<not> SA_accepts ?self sphere ?w 0"
    using e by (simp add: SA_accepts_def cf f u example_sa_def)
  have n: "next_object ?w = 2" "next_array ?w = 2"
    by (simp_all add: example_world_def)
  have o: "objects ?w 0 = example_agent 0 9" "objects ?w (Suc 0) = example_agent (Suc 0) 1"
    "position_of ?w 0 = [[3]]" "arrays ?w (Suc 0) = [[1]]"
    by (simp_all add: example_world_def position_of_def example_agent_def)
  from SA_rejection_frame [OF al T rej] obtain w' where
    "SA_agent_step ?self sphere 0 ?w = Inr w'" "objects w' 0 = objects ?w 0"
    "position_of w' 0 = position_of ?w 0"
    "\<forall>p < next_object ?w. objects w' p = objects ?w p"
    "\<forall>q < next_array ?w. arrays w' q = arrays ?w q"
    by blast
  then show ?thesis using n o by (auto simp: numeral_2_eq_2)
qed

text \<open>
  Claim C10.  The setter of \<open>T\<close> accepts 0, as an integer and as a float.  With \<open>T = 0\<close> the
  step of an agent whose candidate is not strictly better divides by zero and raises
  \<open>ZeroDivisionError\<close>, and so does the update pass that starts with such an agent: the update
  is not total on validated parameters.
\<close>

theorem SA_zero_temperature_raises:
  assumes al: "allocated w agent"
    and nb: "\<not> SA_candidate_fit function w agent < fit (objects w agent)"
  shows "SA_T_setter (PInt 0) self = Inr (self\<lparr>sa_T := 0\<rparr>) \<and>
     SA_T_setter (PFloat 0) self = Inr (self\<lparr>sa_T := 0\<rparr>) \<and>
     SA_agent_step (self\<lparr>sa_T := 0\<rparr>) function agent w = Inl ZeroDivisionError \<and>
     SA_update (self\<lparr>sa_T := 0\<rparr>) (agent # rest) function w = Inl ZeroDivisionError"
proof -
  obtain a r1 w6 where c: "SA_candidate function agent w = (a, r1, w6)"
    by (metis prod_cases3)
  note f = SA_candidate_spec [OF al c]
  have "objects w6 agent = objects w agent"
    using f(6) [of agent] al by (simp add: allocated_def)
  then have st: "SA_agent_step (self\<lparr>sa_T := 0\<rparr>) function agent w = Inl ZeroDivisionError"
    using c f(4) nb by (simp add: SA_agent_step_def py_div_def)
  then show ?thesis
    by (simp add: SA_T_setter_def SA_update_def)
qed

theorem SA_zero_temperature_raises_witness:
  "SA_T_setter (PInt 0) (example_sa 100) = Inr (example_sa 0) \<and>
   SA_update (example_sa 0) [0, Suc 0] sphere (example_world draws_one draws_half)
     = Inl ZeroDivisionError"
proof -
  let ?w = "example_world draws_one draws_half"
  have al: "allocated ?w 0"
    by (simp add: allocated_def example_world_def example_agent_def)
  have pos: "SA_candidate_position ?w 0 = [[31 / 10]]"
    by (simp add: SA_candidate_position_def SA_noise_def position_of_def example_world_def
        example_agent_def draws_one_def)
  have cf: "SA_candidate_fit sphere ?w 0 = 961 / 100"
    by (simp add: SA_candidate_fit_def pos sphere_def power2_eq_square)
  have f: "fit (objects ?w 0) = 9"
    by (simp add: example_world_def example_agent_def)
  have nb: "\<not> SA_candidate_fit sphere ?w 0 < fit (objects ?w 0)"
    by (simp add: cf f)
  show ?thesis
    using SA_zero_temperature_raises [OF al nb, of "example_sa 100" "[Suc 0]"]
    by (simp add: example_sa_def)
qed


section \<open>Properties of the Cross-Entropy update\<close>

subsection \<open>Layout of the store\<close>

lemma same_layout_refl: "same_layout w w"
  by (simp add: same_layout_def)

lemma same_layout_trans: "same_layout w w1 \<Longrightarrow> same_layout w1 w2 \<Longrightarrow> same_layout w w2"
  by (simp add: same_layout_def)

lemma same_layout_rows: "same_layout w w' \<Longrightarrow> length (position_of w' p) = length (position_of w p)"
  by (simp add: same_layout_def position_of_def)

lemma length_clip_rows: "length (clip_rows x ls us) = length x"
  by (induction x ls us rule: clip_rows.induct) auto

lemma same_layout_set_row: "same_layout w (set_row p j row w)"
  by (simp add: same_layout_def set_row_def position_of_def)

lemma same_layout_clip_by_bound: "same_layout w (clip_by_bound p w)"
  by (simp add: same_layout_def clip_by_bound_def length_clip_rows position_of_def)

lemma same_layout_set_fit: "same_layout w (set_fit p v w)"
  by (simp add: same_layout_def set_fit_def)

lemma same_layout_gaussian:
  "generate_gaussian_random_number m s n w = (row, w1) \<Longrightarrow> same_layout w w1"
  by (auto simp: generate_gaussian_random_number_def same_layout_def)

lemma CEM_sample_rows_ok:
  "j + length ms \<le> length (position_of w agent) \<Longrightarrow>
     \<exists>w'. CEM_sample_rows agent j ms w = Inr w' \<and> same_layout w w'"
proof (induction agent j ms w rule: CEM_sample_rows.induct)
  case (1 agent j w)
  then show ?case by (simp add: same_layout_refl)
next
  case (2 agent j m s rest w)
  obtain row w1 where g: "generate_gaussian_random_number m s (n_dimensions (objects w agent)) w = (row, w1)"
    by fastforce
  have l1: "same_layout w w1" using same_layout_gaussian [OF g] .
  have l2: "same_layout w (set_row agent j row w1)"
    using same_layout_trans [OF l1 same_layout_set_row] .
  have lt: "j < length (position_of w1 agent)"
    using "2.prems" same_layout_rows [OF l1, of agent] by simp
  have "Suc j + length rest \<le> length (position_of (set_row agent j row w1) agent)"
    using "2.prems" same_layout_rows [OF l2, of agent] by simp
  from "2.IH" [OF g [symmetric] refl lt this]
  obtain w' where r: "CEM_sample_rows agent (Suc j) rest (set_row agent j row w1) = Inr w'"
    and l': "same_layout (set_row agent j row w1) w'" by blast
  have "CEM_sample_rows agent j ((m, s) # rest) w = Inr w'"
    using g lt r by simp
  moreover have "same_layout w w'" using same_layout_trans [OF l2 l'] .
  ultimately show ?case by blast
qed

lemma CEM_sample_rows_Inr:
  "CEM_sample_rows agent j ms w = Inr w' \<Longrightarrow>
     same_layout w w' \<and> (ms \<noteq> [] \<longrightarrow> j + length ms \<le> length (position_of w agent))"
proof (induction agent j ms w rule: CEM_sample_rows.induct)
  case (1 agent j w)
  then show ?case by (simp add: same_layout_refl)
next
  case (2 agent j m s rest w)
  obtain row w1 where g: "generate_gaussian_random_number m s (n_dimensions (objects w agent)) w = (row, w1)"
    by fastforce
  have l1: "same_layout w w1" using same_layout_gaussian [OF g] .
  have l2: "same_layout w (set_row agent j row w1)"
    using same_layout_trans [OF l1 same_layout_set_row] .
  from "2.prems" g have lt: "j < length (position_of w1 agent)"
    and r: "CEM_sample_rows agent (Suc j) rest (set_row agent j row w1) = Inr w'"
    by (auto split: if_splits)
  from "2.IH" [OF g [symmetric] refl lt r]
  have ih: "same_layout (set_row agent j row w1) w'"
    "rest \<noteq> [] \<longrightarrow> Suc j + length rest \<le> length (position_of (set_row agent j row w1) agent)"
    by auto
  have "j + length ((m, s) # rest) \<le> length (position_of w agent)"
    using ih(2) lt same_layout_rows [OF l1, of agent] same_layout_rows [OF l2, of agent]
    by (cases rest) auto
  moreover have "same_layout w w'" using same_layout_trans [OF l2 ih(1)] .
  ultimately show ?case by blast
qed

lemma CEM_create_new_samples_ok:
  "\<forall>a \<in> set ags. length (zip mean std) \<le> length (position_of w a) \<Longrightarrow>
     \<exists>w'. CEM_create_new_samples ags function mean std w = Inr w' \<and> same_layout w w'"
proof (induction ags arbitrary: w)
  case Nil
  then show ?case by (simp add: same_layout_refl)
next
  case (Cons a ags)
  have "0 + length (zip mean std) \<le> length (position_of w a)" using Cons.prems by simp
  from CEM_sample_rows_ok [OF this]
  obtain w1 where s: "CEM_sample_rows a 0 (zip mean std) w = Inr w1" and l1: "same_layout w w1"
    by blast
  let ?w2 = "clip_by_bound a w1"
  let ?w3 = "set_fit a (function (position_of ?w2 a)) ?w2"
  have l3: "same_layout w ?w3"
    using same_layout_trans [OF same_layout_trans [OF l1 same_layout_clip_by_bound]
        same_layout_set_fit] .
  have "\<forall>x \<in> set ags. length (zip mean std) \<le> length (position_of ?w3 x)"
    using Cons.prems same_layout_rows [OF l3] by simp
  from Cons.IH [OF this] obtain w' where
    r: "CEM_create_new_samples ags function mean std ?w3 = Inr w'" and l': "same_layout ?w3 w'"
    by blast
  have "CEM_create_new_samples (a # ags) function mean std w = Inr w'"
    using s r by (simp add: Let_def)
  moreover have "same_layout w w'" using same_layout_trans [OF l3 l'] .
  ultimately show ?case by blast
qed

lemma CEM_create_new_samples_Inr:
  "CEM_create_new_samples ags function mean std w = Inr w' \<Longrightarrow>
     same_layout w w' \<and>
     (zip mean std \<noteq> [] \<longrightarrow> (\<forall>a \<in> set ags. length (zip mean std) \<le> length (position_of w a)))"
proof (induction ags arbitrary: w)
  case Nil
  then show ?case by (simp add: same_layout_refl)
next
  case (Cons a ags)
  from Cons.prems obtain w1 where s: "CEM_sample_rows a 0 (zip mean std) w = Inr w1"
    by (auto split: sum.splits)
  let ?w2 = "clip_by_bound a w1"
  let ?w3 = "set_fit a (function (position_of ?w2 a)) ?w2"
  from Cons.prems s have r: "CEM_create_new_samples ags function mean std ?w3 = Inr w'"
    by (simp add: Let_def)
  note a = CEM_sample_rows_Inr [OF s]
  have l1: "same_layout w w1" using a by simp
  have l3: "same_layout w ?w3"
    using same_layout_trans [OF same_layout_trans [OF l1 same_layout_clip_by_bound]
        same_layout_set_fit] .
  note ih = Cons.IH [OF r]
  have l: "same_layout w w'" using same_layout_trans [OF l3] ih by simp
  have "\<forall>x \<in> set (a # ags). length (zip mean std) \<le> length (position_of w x)"
    if "zip mean std \<noteq> []"
    using that a ih same_layout_rows [OF l3] by simp
  then show ?case using l by blast
qed

subsection \<open>The loop over the decision variables\<close>

lemma variable_rows_Inr:
  "ups \<noteq> [] \<Longrightarrow> \<forall>p \<in> set ups. j < length p \<Longrightarrow> variable_rows ups j = Inr (map (\<lambda>p. p ! j) ups)"
  by (auto simp: variable_rows_def)

lemma CEM_update_variables_result:
  assumes "ups \<noteq> []" "\<forall>p \<in> set ups. \<forall>j \<in> set js. j < length p"
    "\<forall>j \<in> set js. j < length mean \<and> j < length std" "distinct js"
  shows "\<exists>mean' std'. CEM_update_variables self ups js mean std = Inr (mean', std') \<and>
     length mean' = length mean \<and> length std' = length std \<and>
     (\<forall>j < length mean. mean' ! j =
        (if j \<in> set js then CEM_update_mean self (map (\<lambda>p. p ! j) ups) (mean ! j) else mean ! j)) \<and>
     (\<forall>j < length std. std' ! j =
        (if j \<in> set js
         then CEM_update_std self (map (\<lambda>p. p ! j) ups)
                (CEM_update_mean self (map (\<lambda>p. p ! j) ups) (mean ! j)) (std ! j)
         else std ! j))"
  using assms
proof (induction js arbitrary: mean std)
  case Nil
  then show ?case by simp
next
  case (Cons j js)
  let ?u = "map (\<lambda>p. p ! j) ups"
  let ?mean1 = "mean[j := CEM_update_mean self ?u (mean ! j)]"
  let ?std1 = "std[j := CEM_update_std self ?u (?mean1 ! j) (std ! j)]"
  have vr: "variable_rows ups j = Inr ?u"
    using Cons.prems(1,2) by (simp add: variable_rows_Inr)
  have j: "j < length mean" "j < length std" "j \<notin> set js"
    using Cons.prems(3,4) by auto
  have step: "CEM_update_variables self ups (j # js) mean std
      = CEM_update_variables self ups js ?mean1 ?std1"
    using vr j by (simp add: Let_def)
  have p2: "\<forall>p \<in> set ups. \<forall>j \<in> set js. j < length p" using Cons.prems(2) by simp
  have p3: "\<forall>k \<in> set js. k < length ?mean1 \<and> k < length ?std1" using Cons.prems(3) by simp
  have p4: "distinct js" using Cons.prems(4) by simp
  from Cons.IH [OF Cons.prems(1) p2 p3 p4]
  obtain mean' std' where r: "CEM_update_variables self ups js ?mean1 ?std1 = Inr (mean', std')"
    and lm: "length mean' = length ?mean1" and ls: "length std' = length ?std1"
    and m: "\<forall>k < length ?mean1. mean' ! k =
        (if k \<in> set js then CEM_update_mean self (map (\<lambda>p. p ! k) ups) (?mean1 ! k) else ?mean1 ! k)"
    and s: "\<forall>k < length ?std1. std' ! k =
        (if k \<in> set js
         then CEM_update_std self (map (\<lambda>p. p ! k) ups)
                (CEM_update_mean self (map (\<lambda>p. p ! k) ups) (?mean1 ! k)) (?std1 ! k)
         else ?std1 ! k)"
    by blast
  have m': "\<forall>k < length mean. mean' ! k =
        (if k \<in> set (j # js) then CEM_update_mean self (map (\<lambda>p. p ! k) ups) (mean ! k) else mean ! k)"
  proof (intro allI impI)
    fix k assume k: "k < length mean"
    show "mean' ! k =
        (if k \<in> set (j # js) then CEM_update_mean self (map (\<lambda>p. p ! k) ups) (mean ! k) else mean ! k)"
    proof (cases "k = j")
      case True
      then show ?thesis using m j k by simp
    next
      case False
      then show ?thesis using m k by simp
    qed
  qed
  have s': "\<forall>k < length std. std' ! k =
        (if k \<in> set (j # js)
         then CEM_update_std self (map (\<lambda>p. p ! k) ups)
                (CEM_update_mean self (map (\<lambda>p. p ! k) ups) (mean ! k)) (std ! k)
         else std ! k)"
  proof (intro allI impI)
    fix k assume k: "k < length std"
    show "std' ! k =
        (if k \<in> set (j # js)
         then CEM_update_std self (map (\<lambda>p. p ! k) ups)
                (CEM_update_mean self (map (\<lambda>p. p ! k) ups) (mean ! k)) (std ! k)
         else std ! k)"
    proof (cases "k = j")
      case True
      then show ?thesis using s j k by simp
    next
      case False
      then show ?thesis using s k by simp
    qed
  qed
  show ?case
    using step r lm ls m' s' by simp
qed

lemma slice_to_nonempty:
  "xs \<noteq> [] \<Longrightarrow> 0 < n \<Longrightarrow> slice_to n xs \<noteq> []"
  by (cases xs) (auto simp: slice_to_def)

lemma slice_to_set: "set (slice_to n xs) \<subseteq> set xs"
  by (auto simp: slice_to_def dest: in_set_takeD)

lemma slice_to_all: "int (length xs) \<le> n \<Longrightarrow> slice_to n xs = xs"
  by (simp add: slice_to_def)

lemma length_slice_to: "0 < n \<Longrightarrow> length (slice_to n xs) = min (nat n) (length xs)"
  by (simp add: slice_to_def)

lemma CEM_elites_rows:
  assumes "ags \<noteq> []" "0 < cem_n_updates self"
    "\<forall>a \<in> set ags. n \<le> length (position_of w a)"
  shows "CEM_elites self (sort_key k ags) w \<noteq> []"
    "\<forall>p \<in> set (CEM_elites self (sort_key k ags) w). \<forall>j \<in> set [0..<n]. j < length p"
proof -
  have "sort_key k ags \<noteq> []" using assms(1) by (metis length_0_conv length_sort)
  then show "CEM_elites self (sort_key k ags) w \<noteq> []"
    using slice_to_nonempty [OF _ assms(2)] by (simp add: CEM_elites_def)
  show "\<forall>p \<in> set (CEM_elites self (sort_key k ags) w). \<forall>j \<in> set [0..<n]. j < length p"
    using assms(3) slice_to_set [of "cem_n_updates self" "sort_key k ags"]
    by (fastforce simp: CEM_elites_def)
qed

lemma CEM_update_result:
  assumes cr: "CEM_create_new_samples ags function mean std w = Inr w1"
    and ne: "ags \<noteq> []" and n: "0 < cem_n_updates self" and len: "length mean \<le> length std"
  shows "\<exists>mean' std'.
     CEM_update self ags function mean std w
       = Inr (sort_key (\<lambda>x. fit (objects w1 x)) ags, mean', std', w1) \<and>
     length mean' = length mean \<and> length std' = length std \<and>
     (\<forall>j < length mean.
        mean' ! j = CEM_update_mean self
                      (elite_rows self (sort_key (\<lambda>x. fit (objects w1 x)) ags) w1 j) (mean ! j) \<and>
        std' ! j = CEM_update_std self
                      (elite_rows self (sort_key (\<lambda>x. fit (objects w1 x)) ags) w1 j)
                      (mean' ! j) (std ! j))"
proof -
  let ?sorted = "sort_key (\<lambda>x. fit (objects w1 x)) ags"
  let ?ups = "CEM_elites self ?sorted w1"
  note c = CEM_create_new_samples_Inr [OF cr]
  have z: "length (zip mean std) = length mean" using len by simp
  have rows: "\<forall>a \<in> set ags. length mean \<le> length (position_of w1 a)"
  proof (cases "mean = []")
    case True
    then show ?thesis by simp
  next
    case False
    then have "zip mean std \<noteq> []" using z by (metis length_0_conv)
    then show ?thesis using c z same_layout_rows [of w w1] by simp
  qed
  note e = CEM_elites_rows [OF ne n rows, of "\<lambda>x. fit (objects w1 x)"]
  have p3: "\<forall>j \<in> set [0..<length mean]. j < length mean \<and> j < length std" using len by simp
  from CEM_update_variables_result [OF e(1) e(2) p3 distinct_upt, of self]
  obtain mean' std' where
    r: "CEM_update_variables self ?ups [0..<length mean] mean std = Inr (mean', std')"
    and lm: "length mean' = length mean" and ls: "length std' = length std"
    and m: "\<forall>j < length mean. mean' ! j =
        (if j \<in> set [0..<length mean] then CEM_update_mean self (map (\<lambda>p. p ! j) ?ups) (mean ! j)
         else mean ! j)"
    and s: "\<forall>j < length std. std' ! j =
        (if j \<in> set [0..<length mean]
         then CEM_update_std self (map (\<lambda>p. p ! j) ?ups)
                (CEM_update_mean self (map (\<lambda>p. p ! j) ?ups) (mean ! j)) (std ! j)
         else std ! j)"
    by blast
  have u: "CEM_update self ags function mean std w = Inr (?sorted, mean', std', w1)"
    using cr r by (simp add: CEM_update_def Let_def)
  have "\<forall>j < length mean.
        mean' ! j = CEM_update_mean self (elite_rows self ?sorted w1 j) (mean ! j) \<and>
        std' ! j = CEM_update_std self (elite_rows self ?sorted w1 j) (mean' ! j) (std ! j)"
    using m s len by (simp add: elite_rows_def)
  then show ?thesis using u lm ls by blast
qed

lemma np_mean_mset:
  assumes "mset xs = mset ys"
  shows "np_mean xs = np_mean ys"
proof -
  have "sum_list (concat xs) = sum_mset (image_mset sum_list (mset xs))" for xs :: "real list list"
    by (induction xs) auto
  moreover have "length (concat xs) = sum_mset (image_mset length (mset xs))" for xs :: "real list list"
    by (induction xs) auto
  ultimately show ?thesis using assms by (simp add: np_mean_def)
qed

subsection \<open>The example population\<close>

lemma example_create:
  "CEM_create_new_samples [0, Suc 0] sphere [0] [1] (example_world draws_two_one draws_zero)
     = Inr example_resampled"
  by (simp add: example_resampled_def generate_gaussian_random_number_def set_row_def
      position_of_def clip_by_bound_def set_fit_def example_world_def example_agent_def Let_def)

lemma example_resampled_values:
  "position_of example_resampled 0 = [[2]]" "position_of example_resampled (Suc 0) = [[1]]"
  "fit (objects example_resampled 0) = 4" "fit (objects example_resampled (Suc 0)) = 1"
  by (simp_all add: example_resampled_def generate_gaussian_random_number_def set_row_def
      position_of_def clip_by_bound_def set_fit_def example_world_def example_agent_def Let_def
      draws_two_one_def sphere_def)

lemma example_sorted:
  "sort_key (\<lambda>x. fit (objects example_resampled x)) [0, Suc 0] = [Suc 0, 0]"
  by (simp add: example_resampled_values)

lemma sqrt_quarter: "sqrt (1 / 4) = 1 / 2"
  by (rule real_sqrt_unique) (simp_all add: power2_eq_square)

lemma example_update:
  "CEM_update (example_cem 5 0) [0, Suc 0] sphere [0] [1] (example_world draws_two_one draws_zero)
     = Inr ([Suc 0, 0], [3 / 2], [1 / 2], example_resampled)"
  unfolding CEM_update_def example_create
  by (simp add: example_sorted CEM_elites_def slice_to_def
      example_resampled_values variable_rows_def CEM_update_mean_def CEM_update_std_def
      np_mean_def example_cem_def power2_eq_square sqrt_quarter Let_def)

lemma CEM_update_variables_n_updates:
  "CEM_update_variables (self\<lparr>cem_n_updates := k\<rparr>) ups js mean std
     = CEM_update_variables self ups js mean std"
  by (induction js arbitrary: mean std)
     (auto simp: CEM_update_mean_def CEM_update_std_def Let_def split: sum.splits)

subsection \<open>Mean and standard deviation\<close>

text \<open>
  Claim C2.  After the resampling (store \<open>w1\<close>) the population is sorted ascending by
  fitness, and for every decision variable \<open>j\<close> the mean becomes
  \<open>alpha * mean[j] + (1 - alpha) * average (elite positions for j)\<close> and then the deviation
  becomes \<open>alpha * std[j] + (1 - alpha) * sqrt (average ((elite positions for j - mean'[j])^2))\<close>,
  where \<open>mean'[j]\<close> is the mean just updated.
\<close>

theorem CEM_update_mean_then_std:
  assumes cr: "CEM_create_new_samples ags function mean std w = Inr w1"
    and ne: "ags \<noteq> []" and n: "0 < cem_n_updates self" and len: "length mean \<le> length std"
  shows "\<exists>mean' std'.
     CEM_update self ags function mean std w
       = Inr (sort_key (\<lambda>x. fit (objects w1 x)) ags, mean', std', w1) \<and>
     sorted (map (\<lambda>x. fit (objects w1 x)) (sort_key (\<lambda>x. fit (objects w1 x)) ags)) \<and>
     length mean' = length mean \<and> length std' = length std \<and>
     (\<forall>j < length mean.
        mean' ! j = cem_alpha self * mean ! j
          + (1 - cem_alpha self)
            * np_mean (elite_rows self (sort_key (\<lambda>x. fit (objects w1 x)) ags) w1 j) \<and>
        std' ! j = cem_alpha self * std ! j
          + (1 - cem_alpha self)
            * sqrt (np_mean (map (map (\<lambda>x. (x - mean' ! j)\<^sup>2))
                      (elite_rows self (sort_key (\<lambda>x. fit (objects w1 x)) ags) w1 j))))"
  using CEM_update_result [OF cr ne n len]
  by (simp add: CEM_update_mean_def CEM_update_std_def)

theorem CEM_update_mean_then_std_witness:
  "\<exists>mean' std'.
     CEM_update (example_cem 1 (1 / 2)) [0, Suc 0] sphere [0] [1]
       (example_world draws_two_one draws_zero) = Inr ([Suc 0, 0], mean', std', example_resampled) \<and>
     mean' ! 0 = 1 / 2 \<and> std' ! 0 = 3 / 4"
proof -
  have ne: "[0, Suc 0] \<noteq> ([] :: nat list)" by simp
  have n: "0 < cem_n_updates (example_cem 1 (1 / 2))" by (simp add: example_cem_def)
  have len: "length [0 :: real] \<le> length [1 :: real]" by simp
  have e: "elite_rows (example_cem 1 (1 / 2)) [Suc 0, 0] example_resampled 0 = [[1]]"
    by (simp add: elite_rows_def CEM_elites_def slice_to_def example_cem_def
        example_resampled_values)
  have a: "cem_alpha (example_cem 1 (1 / 2)) = 1 / 2" by (simp add: example_cem_def)
  from CEM_update_mean_then_std [OF example_create ne n len]
  obtain mean' std' where
    u: "CEM_update (example_cem 1 (1 / 2)) [0, Suc 0] sphere [0] [1]
          (example_world draws_two_one draws_zero) = Inr ([Suc 0, 0], mean', std', example_resampled)"
    and m: "mean' ! 0 = cem_alpha (example_cem 1 (1 / 2)) * [0] ! 0
          + (1 - cem_alpha (example_cem 1 (1 / 2)))
            * np_mean (elite_rows (example_cem 1 (1 / 2)) [Suc 0, 0] example_resampled 0)"
    and s: "std' ! 0 = cem_alpha (example_cem 1 (1 / 2)) * [1] ! 0
          + (1 - cem_alpha (example_cem 1 (1 / 2)))
            * sqrt (np_mean (map (map (\<lambda>x. (x - mean' ! 0)\<^sup>2))
                      (elite_rows (example_cem 1 (1 / 2)) [Suc 0, 0] example_resampled 0)))"
    unfolding example_sorted by auto
  have m': "mean' ! 0 = 1 / 2" using m by (simp add: e a np_mean_def)
  have "std' ! 0 = 3 / 4" using s by (simp add: e a m' np_mean_def)
  then show ?thesis using u m' by blast
qed

text \<open>
  Claim C7.  When \<open>n_updates\<close> is the size of the population and \<open>alpha = 0\<close>, the new mean
  of every decision variable is the arithmetic average of the positions of all agents for that
  variable, as resampled in this iteration; the previous mean does not occur in it.
\<close>

theorem CEM_full_elite_mean:
  assumes cr: "CEM_create_new_samples ags function mean std w = Inr w1"
    and alpha: "cem_alpha self = 0"
    and n: "cem_n_updates self = int (length ags)"
    and ne: "ags \<noteq> []" and len: "length mean \<le> length std"
  shows "\<exists>ags' mean' std'.
     CEM_update self ags function mean std w = Inr (ags', mean', std', w1) \<and>
     length mean' = length mean \<and>
     (\<forall>j < length mean. mean' ! j = np_mean (map (\<lambda>a. position_of w1 a ! j) ags))"
proof -
  let ?sorted = "sort_key (\<lambda>x. fit (objects w1 x)) ags"
  have n0: "0 < cem_n_updates self" using n ne by simp
  from CEM_update_result [OF cr ne n0 len]
  obtain mean' std' where
    u: "CEM_update self ags function mean std w = Inr (?sorted, mean', std', w1)"
    and lm: "length mean' = length mean"
    and m: "\<forall>j < length mean.
        mean' ! j = CEM_update_mean self (elite_rows self ?sorted w1 j) (mean ! j)"
    by blast
  have "elite_rows self ?sorted w1 j = map (\<lambda>a. position_of w1 a ! j) ?sorted" for j
    using n by (simp add: elite_rows_def CEM_elites_def slice_to_all comp_def)
  moreover have "np_mean (map (\<lambda>a. position_of w1 a ! j) ?sorted)
      = np_mean (map (\<lambda>a. position_of w1 a ! j) ags)" for j
    by (rule np_mean_mset) simp
  ultimately have "\<forall>j < length mean. mean' ! j = np_mean (map (\<lambda>a. position_of w1 a ! j) ags)"
    using m alpha by (simp add: CEM_update_mean_def)
  then show ?thesis using u lm by blast
qed

theorem CEM_full_elite_mean_witness:
  "\<exists>ags' mean' std'.
     CEM_update (example_cem 2 0) [0, Suc 0] sphere [0] [1]
       (example_world draws_two_one draws_zero) = Inr (ags', mean', std', example_resampled) \<and>
     mean' ! 0 = 3 / 2"
proof -
  have alpha: "cem_alpha (example_cem 2 0) = 0" by (simp add: example_cem_def)
  have n: "cem_n_updates (example_cem 2 0) = int (length [0, Suc 0])"
    by (simp add: example_cem_def)
  have ne: "[0, Suc 0] \<noteq> ([] :: nat list)" by simp
  have len: "length [0 :: real] \<le> length [1 :: real]" by simp
  from CEM_full_elite_mean [OF example_create alpha n ne len]
  obtain ags' mean' std' where
    u: "CEM_update (example_cem 2 0) [0, Suc 0] sphere [0] [1]
          (example_world draws_two_one draws_zero) = Inr (ags', mean', std', example_resampled)"
    and m: "mean' ! 0 = np_mean (map (\<lambda>a. position_of example_resampled a ! 0) [0, Suc 0])"
    by auto
  have "mean' ! 0 = 3 / 2" using m by (simp add: example_resampled_values np_mean_def)
  then show ?thesis using u by blast
qed

subsection \<open>The number of elites\<close>

text \<open>
  Claim C6, as stated, fails: with \<open>n_updates = 5\<close> and a population of two agents the setter
  accepts the value, the update returns normally, and the elite set has two agents.
\<close>

theorem CEM_n_updates_above_population:
  "CEM_n_updates_setter (PInt 5) (example_cem 1 0) = Inr (example_cem 5 0) \<and>
   length [0, Suc 0 :: nat] = 2 \<and>
   CEM_update (example_cem 5 0) [0, Suc 0] sphere [0] [1] (example_world draws_two_one draws_zero)
     = Inr ([Suc 0, 0], [3 / 2], [1 / 2], example_resampled) \<and>
   length (CEM_elites (example_cem 5 0) [Suc 0, 0] example_resampled) = 2"
  using example_update
  by (simp add: CEM_n_updates_setter_def example_cem_def CEM_elites_def slice_to_def)

text \<open>
  Claim C6, amended.  The setter of \<open>n_updates\<close> accepts every positive integer, whatever the
  size of the population; the elite set has \<open>min (n_updates, population size)\<close> agents, hence
  exactly \<open>n_updates\<close> when \<open>n_updates\<close> does not exceed the population; and with an
  \<open>n_updates\<close> that is at least the size of the population the update is the update with
  \<open>n_updates\<close> equal to that size.
\<close>

theorem CEM_elite_count:
  assumes "0 < n"
  shows "CEM_n_updates_setter (PInt n) self = Inr (self\<lparr>cem_n_updates := n\<rparr>) \<and>
     length (CEM_elites (self\<lparr>cem_n_updates := n\<rparr>) (sort_key k ags) w1)
       = min (nat n) (length ags) \<and>
     (int (length ags) \<le> n \<longrightarrow>
        CEM_update (self\<lparr>cem_n_updates := n\<rparr>) ags function mean std w
          = CEM_update (self\<lparr>cem_n_updates := int (length ags)\<rparr>) ags function mean std w)"
proof -
  have "CEM_update (self\<lparr>cem_n_updates := n\<rparr>) ags function mean std w
          = CEM_update (self\<lparr>cem_n_updates := int (length ags)\<rparr>) ags function mean std w"
    if le: "int (length ags) \<le> n"
  proof (cases "CEM_create_new_samples ags function mean std w")
    case (Inl e)
    then show ?thesis by (simp add: CEM_update_def)
  next
    case (Inr w2)
    have "CEM_elites (self\<lparr>cem_n_updates := n\<rparr>) (sort_key (\<lambda>x. fit (objects w2 x)) ags) w2
      = CEM_elites (self\<lparr>cem_n_updates := int (length ags)\<rparr>)
          (sort_key (\<lambda>x. fit (objects w2 x)) ags) w2"
      using le by (simp add: CEM_elites_def slice_to_all)
    then show ?thesis
      using Inr by (simp add: CEM_update_def CEM_update_variables_n_updates Let_def)
  qed
  then show ?thesis
    using assms by (simp add: CEM_n_updates_setter_def CEM_elites_def length_slice_to)
qed

theorem CEM_elite_count_witness:
  "CEM_n_updates_setter (PInt 5) (example_cem 1 0) = Inr (example_cem 5 0) \<and>
   length (CEM_elites (example_cem 5 0)
             (sort_key (\<lambda>x. fit (objects example_resampled x)) [0, Suc 0]) example_resampled) = 2 \<and>
   CEM_update (example_cem 5 0) [0, Suc 0] sphere [0] [1] (example_world draws_two_one draws_zero)
     = CEM_update (example_cem 2 0) [0, Suc 0] sphere [0] [1]
         (example_world draws_two_one draws_zero)"
  using CEM_elite_count [of 5 "example_cem 1 0" "\<lambda>x. fit (objects example_resampled x)"
      "[0, Suc 0]" example_resampled sphere "[0]" "[1]" "example_world draws_two_one draws_zero"]
  by (simp add: example_cem_def)


section \<open>Properties of the optimization pipeline\<close>

subsection \<open>Simulated Annealing\<close>

lemma SA_agent_step_total:
  "sa_T self \<noteq> 0 \<Longrightarrow> \<exists>w'. SA_agent_step self function agent w = Inr w'"
  by (simp add: SA_agent_step_def py_div_def split: prod.splits)

lemma SA_agents_loop_total:
  "sa_T self \<noteq> 0 \<Longrightarrow> \<exists>w'. SA_agents_loop self function ags w = Inr w'"
proof (induction ags arbitrary: w)
  case Nil
  then show ?case by simp
next
  case (Cons a ags)
  from SA_agent_step_total [OF Cons.prems] obtain w1 where
    "SA_agent_step self function a w = Inr w1" by blast
  then show ?case using Cons.IH [OF Cons.prems, of w1] by simp
qed

lemma SA_update_Inr:
  assumes "SA_update self ags function w = Inr (self', ags', w')"
  shows "sa_T self' = sa_T self * sa_beta self" "sa_beta self' = sa_beta self" "ags' = ags"
  using assms
  by (auto simp: SA_update_def SA_T_setter_def split: sum.splits if_splits)

lemma SA_update_total:
  assumes "0 < sa_T self" "0 \<le> sa_beta self"
  shows "\<exists>self' w'. SA_update self ags function w = Inr (self', ags, w')"
proof -
  from SA_agents_loop_total [of self "function" ags w] assms(1)
  obtain w' where "SA_agents_loop self function ags w = Inr w'" by auto
  moreover have "0 \<le> sa_T self * sa_beta self" using assms by simp
  ultimately show ?thesis
    by (simp add: SA_update_def SA_T_setter_def)
qed

lemma evaluate_fields:
  assumes h: "(case pre of None \<Rightarrow> (sp, w) | Some h \<Rightarrow> h (sp, w)) = (sp1, w1)"
  shows "agents (fst (evaluate sp f pre w)) = agents sp1"
    "n_iterations (fst (evaluate sp f pre w)) = n_iterations sp1"
    "space_n_variables (fst (evaluate sp f pre w)) = space_n_variables sp1"
    "snd (evaluate sp f pre w) = evaluate_agents (agents sp1) f w1"
  unfolding evaluate_def h by (simp_all add: Let_def split: list.splits)

lemma evaluate_space:
  "n_iterations (fst (evaluate sp f None w)) = n_iterations sp"
  "agents (fst (evaluate sp f None w)) = agents sp"
  "hook_keeps_budget pre \<Longrightarrow> n_iterations (fst (evaluate sp f pre w)) = n_iterations sp"
  "hook_keeps_agents pre \<Longrightarrow> agents (fst (evaluate sp f pre w)) = agents sp"
proof -
  show "n_iterations (fst (evaluate sp f None w)) = n_iterations sp"
    by (rule evaluate_fields(2)) simp
  show "agents (fst (evaluate sp f None w)) = agents sp"
    by (rule evaluate_fields(1)) simp
  obtain sp1 w1 where h: "(case pre of None \<Rightarrow> (sp, w) | Some h \<Rightarrow> h (sp, w)) = (sp1, w1)"
    by fastforce
  have hk: "fst (h (sp, w)) = sp1" if "pre = Some h" for h
    using h that by simp
  show "n_iterations (fst (evaluate sp f pre w)) = n_iterations sp" if k: "hook_keeps_budget pre"
  proof (cases pre)
    case None
    then show ?thesis using evaluate_fields(2) [OF h, of f] h by simp
  next
    case (Some a)
    have "n_iterations (fst (a (sp, w))) = n_iterations sp"
      using k Some by (simp add: hook_keeps_budget_def)
    then show ?thesis using evaluate_fields(2) [OF h, of f] hk [OF Some] by simp
  qed
  show "agents (fst (evaluate sp f pre w)) = agents sp" if k: "hook_keeps_agents pre"
  proof (cases pre)
    case None
    then show ?thesis using evaluate_fields(1) [OF h, of f] h by simp
  next
    case (Some a)
    have "agents (fst (a (sp, w))) = agents sp"
      using k Some by (simp add: hook_keeps_agents_def)
    then show ?thesis using evaluate_fields(1) [OF h, of f] hk [OF Some] by simp
  qed
qed

lemma length_dump: "length (dumps (dump sp w h)) = Suc (length (dumps h))"
  "store_best_only (dump sp w h) = store_best_only h"
  by (simp_all add: dump_def)

lemma SA_iteration_Inr:
  assumes "SA_iteration function pre st = Inr st'"
  shows "sa_T (sa_self st') = sa_T (sa_self st) * sa_beta (sa_self st)"
    "sa_beta (sa_self st') = sa_beta (sa_self st)"
    "sa_calls st' = sa_calls st @ [Update, Clip, Evaluate, Dump]"
    "length (dumps (sa_history st')) = Suc (length (dumps (sa_history st)))"
    "store_best_only (sa_history st') = store_best_only (sa_history st)"
    "hook_keeps_budget pre \<Longrightarrow> n_iterations (sa_space st') = n_iterations (sa_space st)"
    "hook_keeps_agents pre \<Longrightarrow> agents (sa_space st') = agents (sa_space st)"
proof -
  from assms obtain self1 ags1 w1 where
    u: "SA_update (sa_self st) (agents (sa_space st)) function (sa_world st) = Inr (self1, ags1, w1)"
    by (auto simp: SA_iteration_def Let_def split: sum.splits)
  note f = SA_update_Inr [OF u]
  let ?sp1 = "(sa_space st)\<lparr>agents := ags1\<rparr>"
  let ?w2 = "space_clip_by_bound ?sp1 w1"
  let ?e = "evaluate ?sp1 function pre ?w2"
  have st': "st' = \<lparr>sa_self = self1, sa_space = fst ?e,
      sa_history = dump (fst ?e) (snd ?e) (sa_history st), sa_world = snd ?e,
      sa_calls = sa_calls st @ [Update, Clip, Evaluate, Dump]\<rparr>"
    using assms u by (simp add: SA_iteration_def Let_def split: prod.splits)
  show "sa_T (sa_self st') = sa_T (sa_self st) * sa_beta (sa_self st)" using st' f by simp
  show "sa_beta (sa_self st') = sa_beta (sa_self st)" using st' f by simp
  show "sa_calls st' = sa_calls st @ [Update, Clip, Evaluate, Dump]" using st' by simp
  show "length (dumps (sa_history st')) = Suc (length (dumps (sa_history st)))"
    using st' by (simp add: length_dump)
  show "store_best_only (sa_history st') = store_best_only (sa_history st)"
    using st' by (simp add: length_dump)
  show "n_iterations (sa_space st') = n_iterations (sa_space st)" if "hook_keeps_budget pre"
    using st' evaluate_space(3) [OF that, of ?sp1 "function" ?w2] by simp
  show "agents (sa_space st') = agents (sa_space st)" if "hook_keeps_agents pre"
    using st' f(3) evaluate_space(4) [OF that, of ?sp1 "function" ?w2] by simp
qed

lemma SA_iteration_total:
  assumes "0 < sa_T (sa_self st)" "0 \<le> sa_beta (sa_self st)"
  shows "\<exists>st'. SA_iteration function pre st = Inr st'"
proof -
  from SA_update_total [OF assms] obtain self' w' where
    "SA_update (sa_self st) (agents (sa_space st)) function (sa_world st)
       = Inr (self', agents (sa_space st), w')" by blast
  then show ?thesis by (simp add: SA_iteration_def Let_def split: prod.splits)
qed

lemma SA_iterations_Inr:
  assumes "SA_iterations function pre n st = Inr st'"
  shows "sa_T (sa_self st') = sa_T (sa_self st) * sa_beta (sa_self st) ^ n \<and>
    sa_beta (sa_self st') = sa_beta (sa_self st) \<and>
    sa_calls st' = sa_calls st @ concat (replicate n [Update, Clip, Evaluate, Dump]) \<and>
    length (dumps (sa_history st')) = length (dumps (sa_history st)) + n \<and>
    store_best_only (sa_history st') = store_best_only (sa_history st) \<and>
    (hook_keeps_budget pre \<longrightarrow> n_iterations (sa_space st') = n_iterations (sa_space st)) \<and>
    (hook_keeps_agents pre \<longrightarrow> agents (sa_space st') = agents (sa_space st))"
  using assms
proof (induction n arbitrary: st)
  case 0
  then show ?case by simp
next
  case (Suc n)
  from Suc.prems obtain st1 where i: "SA_iteration function pre st = Inr st1"
    and r: "SA_iterations function pre n st1 = Inr st'"
    by (auto split: sum.splits)
  note a = SA_iteration_Inr [OF i]
  note b = Suc.IH [OF r]
  show ?case using a b by (simp add: mult.assoc)
qed

text \<open>
  The next lemma rests on the exact product: a positive temperature and a positive decay give
  a positive temperature after every pass, so no pass divides by zero.
\<close>

lemma SA_iterations_total:
  assumes "0 < sa_T (sa_self st)" "0 < sa_beta (sa_self st)"
  shows "\<exists>st'. SA_iterations function pre n st = Inr st'"
  using assms
proof (induction n arbitrary: st)
  case 0
  then show ?case by simp
next
  case (Suc n)
  from SA_iteration_total [of st "function" pre] Suc.prems
  obtain st1 where i: "SA_iteration function pre st = Inr st1" by auto
  note a = SA_iteration_Inr(1,2) [OF i]
  have "0 < sa_T (sa_self st1)" "0 < sa_beta (sa_self st1)"
    using a Suc.prems by simp_all
  from Suc.IH [OF this] show ?case using i by simp
qed

subsection \<open>Cross-Entropy Method\<close>

lemma cem_ready_layout:
  "cem_ready sp w n \<Longrightarrow> same_layout w w' \<Longrightarrow> cem_ready sp w' n"
  by (simp add: cem_ready_def same_layout_rows)

lemma cem_ready_agents:
  "cem_ready sp w n \<Longrightarrow> set (agents sp') = set (agents sp) \<Longrightarrow> cem_ready sp' w n"
  by (auto simp: cem_ready_def)

lemma same_layout_evaluate_agents: "same_layout w (evaluate_agents ags f w)"
proof (induction ags arbitrary: w)
  case Nil
  then show ?case by (simp add: same_layout_refl)
next
  case (Cons a ags)
  show ?case
    using same_layout_trans [OF same_layout_set_fit Cons.IH] by simp
qed

lemma same_layout_fold_clip: "same_layout w (fold clip_by_bound ags w)"
proof (induction ags arbitrary: w)
  case Nil
  then show ?case by (simp add: same_layout_refl)
next
  case (Cons a ags)
  show ?case
    using same_layout_trans [OF same_layout_clip_by_bound Cons.IH] by simp
qed

lemma same_layout_space_clip: "same_layout w (space_clip_by_bound sp w)"
  by (simp add: space_clip_by_bound_def same_layout_fold_clip)

lemma CEM_initial_ok:
  "j + length zs \<le> length mean \<Longrightarrow> length std = length mean \<Longrightarrow>
     \<exists>mean' std' w'. CEM_initial j zs mean std w = Inr (mean', std', w') \<and>
       length mean' = length mean \<and> length std' = length mean \<and> same_layout w w'"
proof (induction j zs mean std w rule: CEM_initial.induct)
  case (1 j mean std w)
  then show ?case by (simp add: same_layout_refl)
next
  case (2 j l u rest mean std w)
  obtain x w1 where g: "generate_uniform_random_number l u w = (x, w1)" by fastforce
  have l1: "same_layout w w1"
    using g by (auto simp: generate_uniform_random_number_def same_layout_def)
  have j: "\<not> length mean \<le> j" "\<not> length std \<le> j" using "2.prems" by simp_all
  have p: "Suc j + length rest \<le> length (mean[j := x])"
    "length (std[j := u - l]) = length (mean[j := x])"
    using "2.prems" by simp_all
  from "2.IH" [OF g [symmetric] refl j p]
  obtain mean' std' w' where
    r: "CEM_initial (Suc j) rest (mean[j := x]) (std[j := u - l]) w1 = Inr (mean', std', w')"
    and le: "length mean' = length (mean[j := x])" "length std' = length (mean[j := x])"
    and l': "same_layout w1 w'"
    by blast
  have "CEM_initial j ((l, u) # rest) mean std w = Inr (mean', std', w')"
    using g j r by simp
  moreover have "same_layout w w'" using same_layout_trans [OF l1 l'] .
  ultimately show ?case using le by simp
qed

lemma evaluate_ready:
  assumes k: "hook_keeps_shape pre n" and r: "cem_ready sp w n"
  shows "cem_ready (fst (evaluate sp f pre w)) (snd (evaluate sp f pre w)) n"
proof -
  obtain sp1 w1 where h: "(case pre of None \<Rightarrow> (sp, w) | Some h \<Rightarrow> h (sp, w)) = (sp1, w1)"
    by fastforce
  have r1: "cem_ready sp1 w1 n"
  proof (cases pre)
    case None
    then show ?thesis using h r by simp
  next
    case (Some a)
    then have "a (sp, w) = (sp1, w1)" using h by simp
    moreover have "cem_ready (fst (a (sp, w))) (snd (a (sp, w))) n"
      using k r Some by (simp add: hook_keeps_shape_def)
    ultimately show ?thesis by simp
  qed
  note e = evaluate_fields [OF h, of f]
  have "cem_ready sp1 (snd (evaluate sp f pre w)) n"
    using cem_ready_layout [OF r1 same_layout_evaluate_agents] e(4) by simp
  then show ?thesis using cem_ready_agents e(1) by metis
qed

lemma CEM_update_ok:
  assumes ne: "ags \<noteq> []" and n: "0 < cem_n_updates self"
    and len: "length std = length mean"
    and rows: "\<forall>a \<in> set ags. length mean \<le> length (position_of w a)"
  shows "\<exists>ags' mean' std' w'.
     CEM_update self ags f mean std w = Inr (ags', mean', std', w') \<and>
     set ags' = set ags \<and> length mean' = length mean \<and> length std' = length mean \<and>
     same_layout w w'"
proof -
  have "\<forall>a \<in> set ags. length (zip mean std) \<le> length (position_of w a)"
    using rows len by simp
  from CEM_create_new_samples_ok [OF this, of f]
  obtain w1 where cr: "CEM_create_new_samples ags f mean std w = Inr w1"
    and l: "same_layout w w1" by blast
  have le: "length mean \<le> length std" using len by simp
  from CEM_update_result [OF cr ne n le] obtain mean' std' where
    "CEM_update self ags f mean std w = Inr (sort_key (\<lambda>x. fit (objects w1 x)) ags, mean', std', w1)"
    "length mean' = length mean" "length std' = length std"
    by blast
  then show ?thesis using l len by auto
qed



lemma CEM_iteration_ok:
  assumes n: "0 < cem_n_updates self" and k: "hook_keeps_shape pre n" and inv: "cem_inv n st"
  shows "\<exists>st'. CEM_iteration self f pre st = Inr st' \<and> cem_inv n st' \<and>
     cem_calls st' = cem_calls st @ [Update, Clip, Evaluate, Dump] \<and>
     length (dumps (cem_history st')) = Suc (length (dumps (cem_history st))) \<and>
     store_best_only (cem_history st') = store_best_only (cem_history st) \<and>
     (hook_keeps_budget pre \<longrightarrow> n_iterations (cem_space st') = n_iterations (cem_space st))"
proof -
  have ne: "agents (cem_space st) \<noteq> []"
    and len: "length (cem_std st) = length (cem_mean st)"
    and rows: "\<forall>a \<in> set (agents (cem_space st)).
        length (cem_mean st) \<le> length (position_of (cem_world st) a)"
    using inv by (simp_all add: cem_inv_def cem_ready_def)
  from CEM_update_ok [OF ne n len rows, of f]
  obtain ags1 mean1 std1 w1 where
    u: "CEM_update self (agents (cem_space st)) f (cem_mean st) (cem_std st) (cem_world st)
          = Inr (ags1, mean1, std1, w1)"
    and s: "set ags1 = set (agents (cem_space st))"
    and lm: "length mean1 = length (cem_mean st)" "length std1 = length (cem_mean st)"
    and l1: "same_layout (cem_world st) w1"
    by blast
  let ?sp1 = "(cem_space st)\<lparr>agents := ags1\<rparr>"
  let ?w2 = "space_clip_by_bound ?sp1 w1"
  let ?e = "evaluate ?sp1 f pre ?w2"
  let ?st' = "\<lparr>cem_mean = mean1, cem_std = std1, cem_space = fst ?e,
      cem_history = dump (fst ?e) (snd ?e) (cem_history st), cem_world = snd ?e,
      cem_calls = cem_calls st @ [Update, Clip, Evaluate, Dump]\<rparr>"
  have it: "CEM_iteration self f pre st = Inr ?st'"
    using u by (simp add: CEM_iteration_def Let_def split: prod.splits)
  have r0: "cem_ready (cem_space st) (cem_world st) n" using inv by (simp add: cem_inv_def)
  have "cem_ready (cem_space st) ?w2 n"
    using cem_ready_layout [OF r0 same_layout_trans [OF l1 same_layout_space_clip]] .
  then have "cem_ready ?sp1 ?w2 n"
    using cem_ready_agents [of "cem_space st" ?w2 n ?sp1] s by simp
  from evaluate_ready [OF k this, of f]
  have inv': "cem_inv n ?st'" using lm inv by (simp add: cem_inv_def)
  have b: "hook_keeps_budget pre \<longrightarrow> n_iterations (cem_space ?st') = n_iterations (cem_space st)"
    using evaluate_space(3) [of pre ?sp1 f ?w2] by simp
  show ?thesis
    using it inv' b by (simp add: length_dump)
qed

lemma CEM_iterations_ok:
  assumes n: "0 < cem_n_updates self" and k: "hook_keeps_shape pre n" and inv: "cem_inv n st"
  shows "\<exists>st'. CEM_iterations self f pre m st = Inr st' \<and> cem_inv n st' \<and>
     cem_calls st' = cem_calls st @ concat (replicate m [Update, Clip, Evaluate, Dump]) \<and>
     length (dumps (cem_history st')) = length (dumps (cem_history st)) + m \<and>
     store_best_only (cem_history st') = store_best_only (cem_history st) \<and>
     (hook_keeps_budget pre \<longrightarrow> n_iterations (cem_space st') = n_iterations (cem_space st))"
  using inv
proof (induction m arbitrary: st)
  case 0
  then show ?case by simp
next
  case (Suc m)
  from CEM_iteration_ok [OF n k Suc.prems, of f]
  obtain st1 where i: "CEM_iteration self f pre st = Inr st1" and inv1: "cem_inv n st1"
    and c: "cem_calls st1 = cem_calls st @ [Update, Clip, Evaluate, Dump]"
    and d: "length (dumps (cem_history st1)) = Suc (length (dumps (cem_history st)))"
    and sb: "store_best_only (cem_history st1) = store_best_only (cem_history st)"
    and b: "hook_keeps_budget pre \<longrightarrow> n_iterations (cem_space st1) = n_iterations (cem_space st)"
    by blast
  from Suc.IH [OF inv1] obtain st' where
    r: "CEM_iterations self f pre m st1 = Inr st'" and inv': "cem_inv n st'"
    and c': "cem_calls st' = cem_calls st1 @ concat (replicate m [Update, Clip, Evaluate, Dump])"
    and d': "length (dumps (cem_history st')) = length (dumps (cem_history st1)) + m"
    and sb': "store_best_only (cem_history st') = store_best_only (cem_history st1)"
    and b': "hook_keeps_budget pre \<longrightarrow> n_iterations (cem_space st') = n_iterations (cem_space st1)"
    by blast
  have "CEM_iterations self f pre (Suc m) st = Inr st'" using i r by simp
  then show ?case using inv' c c' d d' sb sb' b b' by simp
qed

subsection \<open>The two pipelines\<close>

lemma SA_run_Inr:
  assumes "SA_run self sp f flag pre w = Inr st"
  shows "sa_T (sa_self st) = sa_T self * sa_beta self ^ n_iterations (fst (evaluate sp f pre w))"
    "sa_calls st = lifecycle_calls (n_iterations (fst (evaluate sp f pre w)))"
    "length (dumps (sa_history st)) = n_iterations (fst (evaluate sp f pre w))"
    "store_best_only (sa_history st) = flag"
    "hook_keeps_agents pre \<Longrightarrow> agents (sa_space st) = agents sp"
proof -
  let ?e = "evaluate sp f pre w"
  let ?st0 = "\<lparr>sa_self = self, sa_space = fst ?e, sa_history = History flag, sa_world = snd ?e,
      sa_calls = [Evaluate, NewHistory]\<rparr>"
  have r: "SA_iterations f pre (n_iterations (fst ?e)) ?st0 = Inr st"
    using assms by (simp add: SA_run_def Let_def split: prod.splits)
  note a = SA_iterations_Inr [OF r]
  show "sa_T (sa_self st) = sa_T self * sa_beta self ^ n_iterations (fst ?e)" using a by simp
  show "sa_calls st = lifecycle_calls (n_iterations (fst ?e))"
    using a by (simp add: lifecycle_calls_def)
  show "length (dumps (sa_history st)) = n_iterations (fst ?e)"
    using a by (simp add: History_def)
  show "store_best_only (sa_history st) = flag" using a by (simp add: History_def)
  show "agents (sa_space st) = agents sp" if "hook_keeps_agents pre"
    using a that evaluate_space(4) [OF that, of sp f w] by simp
qed

lemma SA_run_total:
  assumes "0 < sa_T self" "0 < sa_beta self"
  shows "\<exists>st. SA_run self sp f flag pre w = Inr st"
proof -
  let ?e = "evaluate sp f pre w"
  let ?st0 = "\<lparr>sa_self = self, sa_space = fst ?e, sa_history = History flag, sa_world = snd ?e,
      sa_calls = [Evaluate, NewHistory]\<rparr>"
  have run: "SA_run self sp f flag pre w = SA_iterations f pre (n_iterations (fst ?e)) ?st0"
    by (simp add: SA_run_def Let_def split: prod.splits)
  have "\<exists>st. SA_iterations f pre (n_iterations (fst ?e)) ?st0 = Inr st"
    by (rule SA_iterations_total) (simp_all add: assms)
  then show ?thesis using run by simp
qed

lemma CEM_run_ok:
  assumes n: "0 < cem_n_updates self"
    and k: "hook_keeps_shape pre (space_n_variables sp)"
    and b: "hook_keeps_budget pre"
    and r: "cem_ready sp w (space_n_variables sp)"
    and z: "length (zip (space_lb sp) (space_ub sp)) \<le> space_n_variables sp"
  shows "\<exists>st. CEM_run self sp f flag pre w = Inr st \<and>
     cem_calls st = lifecycle_calls (n_iterations sp) \<and>
     length (dumps (cem_history st)) = n_iterations sp \<and>
     store_best_only (cem_history st) = flag"
proof -
  let ?n = "space_n_variables sp"
  have "0 + length (zip (space_lb sp) (space_ub sp)) \<le> length (replicate ?n (0::real))"
    using z by simp
  from CEM_initial_ok [OF this, of "replicate ?n 0" w]
  obtain mean std w0 where
    i: "CEM_initial 0 (zip (space_lb sp) (space_ub sp)) (replicate ?n 0) (replicate ?n 0) w
          = Inr (mean, std, w0)"
    and lm: "length mean = ?n" "length std = ?n" and l0: "same_layout w w0"
    by auto
  let ?e = "evaluate sp f pre w0"
  let ?st0 = "\<lparr>cem_mean = mean, cem_std = std, cem_space = fst ?e, cem_history = History flag,
      cem_world = snd ?e, cem_calls = [Evaluate, NewHistory]\<rparr>"
  have run: "CEM_run self sp f flag pre w = CEM_iterations self f pre (n_iterations (fst ?e)) ?st0"
    using i by (simp add: CEM_run_def Let_def split: prod.splits)
  have "cem_ready (fst ?e) (snd ?e) ?n"
    using evaluate_ready [OF k cem_ready_layout [OF r l0]] .
  then have inv: "cem_inv ?n ?st0" using lm by (simp add: cem_inv_def)
  have nb: "n_iterations (fst ?e) = n_iterations sp" using evaluate_space(3) [OF b] .
  from CEM_iterations_ok [OF n k inv, of f "n_iterations sp"]
  obtain st where "CEM_iterations self f pre (n_iterations sp) ?st0 = Inr st"
    "cem_calls st = cem_calls ?st0 @ concat (replicate (n_iterations sp) [Update, Clip, Evaluate, Dump])"
    "length (dumps (cem_history st)) = length (dumps (cem_history ?st0)) + n_iterations sp"
    "store_best_only (cem_history st) = store_best_only (cem_history ?st0)"
    by blast
  then show ?thesis
    using run nb by (simp add: lifecycle_calls_def History_def)
qed






text \<open>
  Claim C8, as stated, fails: the update of the Cross-Entropy Method sorts the list of agents
  in place; on the example population the agents at indices 0 and 1 change places.
\<close>

theorem CEM_update_reorders_agents:
  "CEM_update (example_cem 5 0) [0, Suc 0] sphere [0] [1] (example_world draws_two_one draws_zero)
     = Inr ([Suc 0, 0], [3 / 2], [1 / 2], example_resampled) \<and>
   [Suc 0, 0] \<noteq> [0, Suc 0 :: nat]"
  using example_update by simp

text \<open>
  Claim C8, amended.  The update of Simulated Annealing leaves the list of agents as it is, and
  so does the whole of \<open>SA.run\<close> when the hook keeps the population.  The update of the
  Cross-Entropy Method hands back the same agents sorted ascending by their new fitness, with
  a stable sort: the order is kept only where the fitnesses are already ascending.
\<close>

theorem update_agent_order:
  "(SA_update self ags f w = Inr (self', ags', w') \<longrightarrow> ags' = ags) \<and>
   (hook_keeps_agents pre \<and> SA_run self sp f flag pre w = Inr st \<longrightarrow>
      agents (sa_space st) = agents sp) \<and>
   (CEM_update cself ags f mean std w = Inr (ags'', mean', std', w'') \<longrightarrow>
      ags'' = sort_key (\<lambda>x. fit (objects w'' x)) ags \<and> mset ags'' = mset ags \<and>
      sorted (map (\<lambda>x. fit (objects w'' x)) ags''))"
proof (intro conjI impI)
  assume "SA_update self ags f w = Inr (self', ags', w')"
  then show "ags' = ags" using SA_update_Inr(3) by blast
next
  assume "hook_keeps_agents pre \<and> SA_run self sp f flag pre w = Inr st"
  then show "agents (sa_space st) = agents sp" using SA_run_Inr(5) by blast
next
  assume u: "CEM_update cself ags f mean std w = Inr (ags'', mean', std', w'')"
  then show s: "ags'' = sort_key (\<lambda>x. fit (objects w'' x)) ags"
    by (auto simp: CEM_update_def Let_def split: sum.splits)
  show "mset ags'' = mset ags" unfolding s by simp
  show "sorted (map (\<lambda>x. fit (objects w'' x)) ags'')" unfolding s by simp
qed

theorem update_agent_order_witness:
  "(\<exists>self' w'. SA_update (example_sa 100) [0, Suc 0] sphere (example_world draws_one draws_half)
        = Inr (self', [0, Suc 0], w')) \<and>
   (\<exists>st. SA_run (example_sa 100) example_space sphere False None
        (example_world draws_one draws_half) = Inr st \<and> agents (sa_space st) = [0, Suc 0]) \<and>
   sort_key (\<lambda>x. fit (objects example_resampled x)) [0, Suc 0] = [Suc 0, 0]"
proof -
  have p: "0 < sa_T (example_sa 100)" "0 < sa_beta (example_sa 100)"
    by (simp_all add: example_sa_def)
  from SA_update_total [of "example_sa 100" "[0, Suc 0]" sphere "example_world draws_one draws_half"] p
  obtain self' w' where u: "SA_update (example_sa 100) [0, Suc 0] sphere
      (example_world draws_one draws_half) = Inr (self', [0, Suc 0], w')" by auto
  from SA_run_total [OF p, of example_space sphere False None "example_world draws_one draws_half"]
  obtain st where r: "SA_run (example_sa 100) example_space sphere False None
        (example_world draws_one draws_half) = Inr st" by blast
  have k: "hook_keeps_agents None" by (simp add: hook_keeps_agents_def)
  have a: "agents example_space = [0, Suc 0]" by (simp add: example_space_def)
  note t = update_agent_order [where self = "example_sa 100" and ags = "[0, Suc 0]"
      and f = sphere and w = "example_world draws_one draws_half" and pre = None
      and sp = example_space and flag = False and st = st]
  note t' = update_agent_order [where cself = "example_cem 5 0" and ags = "[0, Suc 0]"
      and f = sphere and mean = "[0]" and std = "[1]"
      and w = "example_world draws_two_one draws_zero" and ags'' = "[Suc 0, 0]"
      and mean' = "[3 / 2]" and std' = "[1 / 2]" and w'' = example_resampled]
  have "agents (sa_space st) = [0, Suc 0]" using t k r a by simp
  moreover have "sort_key (\<lambda>x. fit (objects example_resampled x)) [0, Suc 0] = [Suc 0, 0]"
    using t' example_update by simp
  ultimately show ?thesis using u r by blast
qed

end
